theory Spec2Isabelle
  imports Complex_Main "HOL-Library.Product_Lexorder"
begin

section \<open>The LEAP call screener (leap-screener/scripts/leap_screener.py)\<close>

text \<open>
  The screener evaluates a ticker against three layers (fundamentals, technicals, long-dated
  options) and scores the survivors. This theory embeds \<^verbatim>\<open>leap_screener.py\<close>
  function by function.

  Conventions of the embedding.
  \<^item> A Python \<^verbatim>\<open>float\<close> that has passed \<^verbatim>\<open>safe_float\<close> is a \<open>real\<close>: arithmetic is
    exact, rounding error and overflow of IEEE doubles are not modelled.
  \<^item> \<^verbatim>\<open>Optional[float]\<close> is \<open>real option\<close>.
  \<^item> A value read from the provider's \<^verbatim>\<open>info\<close> dictionary is a \<open>pyval\<close>: missing, a finite
    number, NaN, an infinity, or something \<^verbatim>\<open>float()\<close> rejects.
  \<^item> A data frame is the list of its rows; a frame that is \<^verbatim>\<open>None\<close> takes the same branch as
    an empty one in every guard of the source, so both are the empty list. A cell of the
    price history is a \<open>cell\<close>: a finite number, NaN or an infinity. A cell of an option
    chain or of the quarterly earnings is a \<open>real option\<close>, \<open>None\<close> standing for NaN (an
    infinite cell there, which \<^verbatim>\<open>safe_float\<close> rejects as well, is not told from NaN).
  \<^item> An exception is a value: a call that may raise returns \<open>exn + 'a\<close>, \<open>Inl\<close> carrying the
    message.
  \<^item> The report strings of the source are Chinese text with formatted numbers; they are
    modelled by the datatypes \<open>flag\<close>, \<open>opt_reason\<close> and \<open>reason\<close>, one constructor for each
    string of the source, carrying the numbers the string formats.
\<close>

subsection \<open>Thresholds (lines 41-54)\<close>

definition REV_GROWTH_MIN :: real where "REV_GROWTH_MIN = 0.10"
definition EPS_GROWTH_MIN :: real where "EPS_GROWTH_MIN = 0.15"
definition PEG_MAX :: real where "PEG_MAX = 2.0"
definition MARKET_CAP_MIN :: real where "MARKET_CAP_MIN = 5000000000"
definition UPSIDE_MIN :: real where "UPSIDE_MIN = 0.15"
definition RSI_MAX :: real where "RSI_MAX = 60"
definition DRAWDOWN_MIN :: real where "DRAWDOWN_MIN = - 35.0"
definition LONG_DTE_MONTHS :: int where "LONG_DTE_MONTHS = 9"
definition EPS_GROWTH_CAP :: real where "EPS_GROWTH_CAP = 4.0"
definition REV_GROWTH_CAP :: real where "REV_GROWTH_CAP = 2.0"
definition EPS_VOLATILITY_MAX :: real where "EPS_VOLATILITY_MAX = 5.0"

subsection \<open>Small helpers (lines 91-104)\<close>

type_synonym exn = string

datatype pyval = PyNone | PyNum real | PyNaN | PyInf | PyBad

text \<open>\<^verbatim>\<open>clamp(v, low=0.0, high=100.0)\<close>; every call of the source uses the defaults.\<close>

definition clamp :: "real \<Rightarrow> real" where
  "clamp v = max 0 (min 100 v)"

text \<open>\<^verbatim>\<open>safe_float\<close>: \<^verbatim>\<open>None\<close>, NaN, an infinity and a value \<^verbatim>\<open>float()\<close> raises on all give
  \<^verbatim>\<open>None\<close>.\<close>

fun safe_float :: "pyval \<Rightarrow> real option" where
  "safe_float PyNone = None"
| "safe_float (PyNum x) = Some x"
| "safe_float PyNaN = None"
| "safe_float PyInf = None"
| "safe_float PyBad = None"

text \<open>Python's \<^verbatim>\<open>x or d\<close> on an optional float: \<^verbatim>\<open>None\<close> and \<^verbatim>\<open>0.0\<close> are both falsy.\<close>

definition py_or :: "real option \<Rightarrow> real \<Rightarrow> real" where
  "py_or x d = (case x of None \<Rightarrow> d | Some v \<Rightarrow> if v = 0 then d else v)"

text \<open>\<^verbatim>\<open>x if x is not None else d\<close>.\<close>

definition if_none :: "real option \<Rightarrow> real \<Rightarrow> real" where
  "if_none x d = (case x of None \<Rightarrow> d | Some v \<Rightarrow> v)"

text \<open>\<^verbatim>\<open>np.mean\<close> of a non-empty list.\<close>

definition mean :: "real list \<Rightarrow> real" where
  "mean xs = sum_list xs / real (length xs)"

text \<open>\<^verbatim>\<open>round(x, 2)\<close>: to the nearest multiple of 0.01, a tie going to the even one.\<close>

definition round_half_even :: "real \<Rightarrow> int" where
  "round_half_even x =
     (let f = \<lfloor>x\<rfloor>; d = x - of_int f
      in if d < 1 / 2 then f else if 1 / 2 < d then f + 1 else if even f then f else f + 1)"

definition round2 :: "real \<Rightarrow> real" where
  "round2 x = of_int (round_half_even (x * 100)) / 100"

subsection \<open>The Scorer: \<^verbatim>\<open>score_stock\<close> (lines 345-411)\<close>

record metrics =
  m_revenue_growth :: "real option"
  m_eps_growth :: "real option"
  m_peg :: "real option"
  m_market_cap :: "real option"
  m_upside :: "real option"
  m_rsi14 :: "real option"
  m_drawdown_52w_pct :: "real option"
  m_vol_ratio :: "real option"
  m_call_spread_pct :: "real option"
  m_iv_rank :: "real option"
  m_required_move_for_2x_pct :: "real option"

text \<open>The sub-scores carry the names of the local variables of \<^verbatim>\<open>score_stock\<close>.\<close>

definition s_rev :: "real option \<Rightarrow> real" where
  "s_rev rev_growth = clamp ((py_or rev_growth 0 - 0.05) / 0.30 * 100)"

definition s_eps :: "real option \<Rightarrow> real" where
  "s_eps eps = clamp ((py_or eps 0 - 0.05) / 0.40 * 100)"

definition s_peg :: "real option \<Rightarrow> real" where
  "s_peg peg = clamp ((2.0 - if_none peg 2.0) / 1.5 * 100)"

definition s_mcap :: "real option \<Rightarrow> real" where
  "s_mcap mcap = clamp ((log 10 (max (py_or mcap 1) 1) - 9.0) / 3.0 * 100)"

definition s_val :: "real option \<Rightarrow> real" where
  "s_val peg = clamp ((2.0 - if_none peg 2.0) / 2.0 * 100)"

definition s_rsi :: "real option \<Rightarrow> real" where
  "s_rsi rsi = clamp ((55 - if_none rsi 60) / 25 * 100)"

definition s_dd :: "real option \<Rightarrow> real" where
  "s_dd drawdown =
     (let dd = if_none drawdown 0
      in if dd < - 40 then 5
         else if - 25 \<le> dd \<and> dd \<le> - 5 then 90
         else if dd < - 25 then 50
         else 40)"

definition s_vol :: "real option \<Rightarrow> real" where
  "s_vol vol_ratio = clamp ((py_or vol_ratio 1.0 - 0.8) / 1.2 * 100)"

definition s_cat :: "real option \<Rightarrow> real" where
  "s_cat upside = clamp ((py_or upside 0 - 0.10) / 0.50 * 100)"

definition s_spread :: "real option \<Rightarrow> real" where
  "s_spread spread = clamp ((20 - if_none spread 20) / 20 * 100)"

definition s_move :: "real option \<Rightarrow> real" where
  "s_move req_move = clamp ((80 - if_none req_move 80) / 80 * 100)"

definition s_iv :: "real option \<Rightarrow> real" where
  "s_iv iv_rank =
     (case iv_rank of None \<Rightarrow> 50 | Some r \<Rightarrow> clamp (100 - \<bar>r - 35\<bar> * 2.2))"

definition score_stock :: "metrics \<Rightarrow> real" where
  "score_stock m =
     (let s_fund = mean [s_rev (m_revenue_growth m), s_eps (m_eps_growth m),
                         s_peg (m_peg m), s_mcap (m_market_cap m)];
          s_tech = mean [s_rsi (m_rsi14 m), s_dd (m_drawdown_52w_pct m), s_vol (m_vol_ratio m)];
          s_opt = mean [s_spread (m_call_spread_pct m), s_move (m_required_move_for_2x_pct m),
                        s_iv (m_iv_rank m)];
          final = s_fund * 0.25 + s_val (m_peg m) * 0.20 + s_tech * 0.15
                  + s_cat (m_upside m) * 0.20 + s_opt * 0.20
      in round2 (clamp final))"

subsection \<open>The Metric Extractor: \<^verbatim>\<open>get_technical_metrics\<close> (lines 159-197)\<close>

text \<open>A cell of the float columns \<^verbatim>\<open>Close\<close> and \<^verbatim>\<open>Volume\<close>, and the Python value it is when
  read out of the frame.\<close>

datatype cell = Num real | NaN | PosInf | NegInf

fun of_cell :: "cell \<Rightarrow> pyval" where
  "of_cell (Num x) = PyNum x"
| "of_cell NaN = PyNaN"
| "of_cell PosInf = PyInf"
| "of_cell NegInf = PyInf"

record bar =
  Close :: cell
  Volume :: cell

record tech =
  t_price :: "real option"
  t_rsi14 :: "real option"
  t_drawdown_52w_pct :: "real option"
  t_vol_ratio :: "real option"
  t_vol_spike :: "bool option"

definition tech_absent :: tech where
  "tech_absent = \<lparr>t_price = None, t_rsi14 = None, t_drawdown_52w_pct = None,
                   t_vol_ratio = None, t_vol_spike = None\<rparr>"

text \<open>\<^verbatim>\<open>Series.max()\<close> skips NaN, and only NaN: it is NaN when nothing is left, positive
  infinity when one of the cells left is, negative infinity when all of them are, and the
  greatest number otherwise.\<close>

definition series_max :: "cell list \<Rightarrow> cell" where
  "series_max xs =
     (let vs = filter (\<lambda>c. c \<noteq> NaN) xs;
          nums = List.map_filter (\<lambda>c. case c of Num x \<Rightarrow> Some x | _ \<Rightarrow> None) vs
      in if vs = [] then NaN
         else if PosInf \<in> set vs then PosInf
         else if nums = [] then NegInf
         else Num (Max (set nums)))"

text \<open>The last value of \<^verbatim>\<open>Series.rolling(n).mean()\<close> once \<^verbatim>\<open>safe_float\<close> has read it: the mean
  of the last \<open>n\<close> cells; absent when there are fewer than \<open>n\<close> cells or one of them is NaN
  (the mean is NaN) or infinite (the mean is infinite or NaN).\<close>

definition rolling_mean_last :: "nat \<Rightarrow> cell list \<Rightarrow> real option" where
  "rolling_mean_last n xs =
     (if length xs < n then None
      else case those (map (\<lambda>c. safe_float (of_cell c)) (drop (length xs - n) xs)) of
             None \<Rightarrow> None
           | Some vs \<Rightarrow> Some (mean vs))"

text \<open>
  The relative-strength index comes from the library \<^verbatim>\<open>ta\<close>; the last cell of its series is
  the parameter \<open>rsi\<close>. The guard \<^verbatim>\<open>not vol20.empty\<close> of line 184 holds for every non-empty
  history and is left out.
\<close>

definition get_technical_metrics :: "(cell list \<Rightarrow> cell) \<Rightarrow> bar list \<Rightarrow> tech" where
  "get_technical_metrics rsi hist =
     (if hist = [] \<or> length hist < 30 then tech_absent
      else
        let close = map Close hist;
            volume = map Volume hist;
            price = safe_float (of_cell (last close));
            rsi14 = safe_float (of_cell (rsi close));
            high_52w = safe_float (of_cell (series_max close));
            drawdown_52w_pct =
              (case (price, high_52w) of
                 (Some p, Some h) \<Rightarrow> if h \<noteq> 0 \<and> h > 0 then Some ((p / h - 1.0) * 100.0) else None
               | _ \<Rightarrow> None);
            v20 = rolling_mean_last 20 volume;
            v0 = safe_float (of_cell (last volume));
            vol_ratio =
              (case (v20, v0) of
                 (Some m, Some v) \<Rightarrow> if m \<noteq> 0 \<and> m > 0 then Some (v / m) else None
               | _ \<Rightarrow> None);
            vol_spike = map_option (\<lambda>r. r > 1.5) vol_ratio
        in \<lparr>t_price = price, t_rsi14 = rsi14, t_drawdown_52w_pct = drawdown_52w_pct,
            t_vol_ratio = vol_ratio, t_vol_spike = vol_spike\<rparr>)"

subsection \<open>The Option Selector: \<^verbatim>\<open>pick_atm_call\<close>, \<^verbatim>\<open>get_option_metrics\<close> (lines 200-342)\<close>

record contract =
  c_strike :: "real option"
  c_openInterest :: "real option"
  c_bid :: "real option"
  c_ask :: "real option"
  c_impliedVolatility :: "real option"

text \<open>
  \<^verbatim>\<open>sort_values(["dist", "openInterest"], ascending=[True, False])\<close>: by distance upwards,
  then by open interest downwards, NaN last in either column, rows that tie staying in their
  order. The key below sorts the same way under the lexicographic order of pairs.
\<close>

definition atm_key :: "real \<Rightarrow> contract \<Rightarrow> (bool \<times> real) \<times> (bool \<times> real)" where
  "atm_key spot c =
     (let dist = map_option (\<lambda>k. \<bar>k - spot\<bar>) (c_strike c)
      in ((dist = None, if_none dist 0),
          (c_openInterest c = None, - if_none (c_openInterest c) 0)))"

definition pick_atm_call :: "contract list \<Rightarrow> real option \<Rightarrow> contract option" where
  "pick_atm_call calls spot =
     (case spot of
        None \<Rightarrow> None
      | Some s \<Rightarrow>
          if calls = [] then None
          else (case sort_key (atm_key s) calls of [] \<Rightarrow> None | c # _ \<Rightarrow> Some c))"

datatype opt_reason = NoOptionChain | NoLongDated int | NoAtmCall | OK

record opt_metrics =
  o_layer3_pass :: bool
  o_reason :: opt_reason
  o_expiry :: "string option"
  o_strike :: "real option"
  o_bid :: "real option"
  o_ask :: "real option"
  o_spread_pct :: "real option"
  o_iv_rank :: "real option"
  o_required_move_for_2x_pct :: "real option"

text \<open>The three failing returns (lines 222-232, 246-256, 293-303) differ in the reason only.\<close>

definition opt_fail :: "opt_reason \<Rightarrow> opt_metrics" where
  "opt_fail why =
     \<lparr>o_layer3_pass = False, o_reason = why, o_expiry = None, o_strike = None, o_bid = None,
      o_ask = None, o_spread_pct = None, o_iv_rank = None, o_required_move_for_2x_pct = None\<rparr>"

text \<open>
  The provider of option chains answers over the network, so two lookups of one expiration
  need not agree: \<open>chain k expiry\<close> is the answer to lookup number \<open>k\<close> (counted from 0 within one
  run of \<^verbatim>\<open>get_option_metrics\<close>), \<open>Inl\<close> when the lookup or the selection on its result raises.
  \<open>strptime\<close> parses an expiration string to a day number, \<open>None\<close> when it raises.
\<close>

type_synonym chain_provider = "nat \<Rightarrow> string \<Rightarrow> exn + contract list"

definition valid_expiries ::
  "(string \<Rightarrow> int option) \<Rightarrow> int \<Rightarrow> int \<Rightarrow> string list \<Rightarrow> (string \<times> int) list" where
  "valid_expiries strptime today min_months opts =
     (let cutoff = today + min_months * 30
      in sort_key snd
           (List.map_filter
              (\<lambda>d. case strptime d of
                     None \<Rightarrow> None
                   | Some dd \<Rightarrow> if dd > cutoff then Some (d, dd) else None)
              opts))"

text \<open>The body both loops share (lines 266-268, 283-284): look the chain up, pick its contract;
  an exception skips the expiration.\<close>

definition atm_at :: "chain_provider \<Rightarrow> real \<Rightarrow> nat \<Rightarrow> string \<Rightarrow> contract option" where
  "atm_at chain spot k expiry =
     (case chain k expiry of Inl e \<Rightarrow> None | Inr calls \<Rightarrow> pick_atm_call calls (Some spot))"

text \<open>The first loop (lines 264-277): the state is \<open>(atm_ivs, chosen_call)\<close>.\<close>

fun collect_atm ::
  "chain_provider \<Rightarrow> real \<Rightarrow> string \<Rightarrow> nat \<Rightarrow> (string \<times> int) list
   \<Rightarrow> real list \<times> contract option \<Rightarrow> real list \<times> contract option" where
  "collect_atm chain spot preferred_expiry k [] st = st"
| "collect_atm chain spot preferred_expiry k ((expiry, dd) # rest) (atm_ivs, chosen_call) =
     (case atm_at chain spot k expiry of
        None \<Rightarrow> collect_atm chain spot preferred_expiry (Suc k) rest (atm_ivs, chosen_call)
      | Some atm \<Rightarrow>
          collect_atm chain spot preferred_expiry (Suc k) rest
            (case c_impliedVolatility atm of
               None \<Rightarrow> atm_ivs
             | Some iv \<Rightarrow> if iv > 0 then atm_ivs @ [iv] else atm_ivs,
             if expiry = preferred_expiry then Some atm else chosen_call))"

text \<open>The second loop (lines 281-290): the first expiration whose lookup gives a contract.\<close>

fun fallback_atm ::
  "chain_provider \<Rightarrow> real \<Rightarrow> nat \<Rightarrow> (string \<times> int) list \<Rightarrow> (string \<times> contract) option" where
  "fallback_atm chain spot k [] = None"
| "fallback_atm chain spot k ((expiry, dd) # rest) =
     (case atm_at chain spot k expiry of
        None \<Rightarrow> fallback_atm chain spot (Suc k) rest
      | Some atm \<Rightarrow> Some (expiry, atm))"

text \<open>Lines 310-316: \<open>premium\<close> and \<open>spread_pct\<close>.\<close>

definition premium_of :: "real option \<Rightarrow> real option \<Rightarrow> real option" where
  "premium_of bid ask =
     (case (bid, ask) of
        (Some b, Some a) \<Rightarrow> if a > 0 then Some ((b + a) / 2) else None
      | _ \<Rightarrow> None)"

definition spread_pct_of :: "real option \<Rightarrow> real option \<Rightarrow> real option" where
  "spread_pct_of bid ask =
     (case (bid, ask) of
        (Some b, Some a) \<Rightarrow>
          if a > 0 then (let mid = (b + a) / 2 in if mid > 0 then Some ((a - b) / mid * 100) else None)
          else None
      | _ \<Rightarrow> None)"

text \<open>Lines 318-325: the proxy of the IV rank.\<close>

definition iv_rank_of :: "real option \<Rightarrow> real list \<Rightarrow> real option" where
  "iv_rank_of iv_now atm_ivs =
     (case iv_now of
        None \<Rightarrow> None
      | Some iv \<Rightarrow>
          if length atm_ivs \<ge> 2 then
            (let iv_min = Min (set atm_ivs); iv_max = Max (set atm_ivs)
             in if iv_max > iv_min then Some (clamp ((iv - iv_min) / (iv_max - iv_min) * 100))
                else None)
          else None)"

text \<open>Lines 327-330: the move of the spot that doubles the premium.\<close>

definition required_move_of :: "real option \<Rightarrow> real option \<Rightarrow> real \<Rightarrow> real option" where
  "required_move_of strike premium spot =
     (case (strike, premium) of
        (Some k, Some p) \<Rightarrow>
          if spot \<noteq> 0 \<and> spot > 0 then Some (((k + 2 * p) / spot - 1.0) * 100) else None
      | _ \<Rightarrow> None)"

text \<open>Lines 305-342: the metrics of the chosen contract.\<close>

definition quote_of :: "string \<Rightarrow> contract \<Rightarrow> real list \<Rightarrow> real \<Rightarrow> opt_metrics" where
  "quote_of preferred_expiry chosen_call atm_ivs spot =
     (let strike = c_strike chosen_call;
          bid = c_bid chosen_call;
          ask = c_ask chosen_call;
          iv_now = c_impliedVolatility chosen_call
      in \<lparr>o_layer3_pass = True, o_reason = OK, o_expiry = Some preferred_expiry,
          o_strike = strike, o_bid = bid, o_ask = ask,
          o_spread_pct = spread_pct_of bid ask,
          o_iv_rank = iv_rank_of iv_now atm_ivs,
          o_required_move_for_2x_pct = required_move_of strike (premium_of bid ask) spot\<rparr>)"

text \<open>
  Lines 258-290: the two loops over the eligible expirations, sorted. The preferred expiration
  is the first; its contract of the first loop is chosen, else the first contract the second
  loop finds, whose expiration then becomes the preferred one. The list is never empty here
  (line 245 has returned otherwise).
\<close>

definition select_contract ::
  "chain_provider \<Rightarrow> real \<Rightarrow> (string \<times> int) list \<Rightarrow> real list \<times> (string \<times> contract) option" where
  "select_contract chain spot ve =
     (case ve of
        [] \<Rightarrow> ([], None)
      | (first_expiry, first_dd) # later \<Rightarrow>
          (let (atm_ivs, chosen1) = collect_atm chain spot first_expiry 0 ve ([], None)
           in (atm_ivs,
               case chosen1 of
                 Some c \<Rightarrow> Some (first_expiry, c)
               | None \<Rightarrow> fallback_atm chain spot (length ve) ve)))"

text \<open>
  \<open>options\<close> is \<^verbatim>\<open>tk.options\<close> (\<open>Inl\<close> when reading it raises; \<^verbatim>\<open>None\<close> is the empty list),
  \<open>today\<close> the day number of \<^verbatim>\<open>datetime.now().date()\<close>.
\<close>

definition get_option_metrics ::
  "(string \<Rightarrow> int option) \<Rightarrow> int \<Rightarrow> exn + string list \<Rightarrow> chain_provider \<Rightarrow> real \<Rightarrow> int
   \<Rightarrow> exn + opt_metrics" where
  "get_option_metrics strptime today options chain spot min_months =
     (case options of
        Inl e \<Rightarrow> Inl e
      | Inr opts \<Rightarrow>
          if opts = [] then Inr (opt_fail NoOptionChain)
          else
            (let ve = valid_expiries strptime today min_months opts
             in if ve = [] then Inr (opt_fail (NoLongDated min_months))
                else (case select_contract chain spot ve of
                        (atm_ivs, None) \<Rightarrow> Inr (opt_fail NoAtmCall)
                      | (atm_ivs, Some (preferred_expiry, chosen_call)) \<Rightarrow>
                          Inr (quote_of preferred_expiry chosen_call atm_ivs spot))))"

subsection \<open>The Funnel Evaluator: \<^verbatim>\<open>analyze_ticker\<close> (lines 414-657)\<close>

record info =
  revenueGrowth :: pyval
  earningsGrowth :: pyval
  trailingEps :: pyval
  forwardEps :: pyval
  pegRatio :: pyval
  trailingPegRatio :: pyval
  sharesOutstanding :: pyval
  floatShares :: pyval
  marketCap :: pyval
  targetMeanPrice :: pyval
  targetMedianPrice :: pyval

text \<open>
  What the source reads from the handle \<^verbatim>\<open>yf.Ticker(ticker)\<close>, in the order it reads it.
  \<open>tk_quarterly_earnings\<close> is the column \<^verbatim>\<open>Reported EPS\<close> of the quarterly earnings, \<open>Inl\<close> when
  reading the frame or the column raises.
\<close>

record ticker_api =
  tk_info :: "exn + info"
  tk_history :: "exn + bar list"
  tk_quarterly_earnings :: "exn + real option list"
  tk_options :: "exn + string list"
  tk_option_chain :: chain_provider

text \<open>The library and the clock: \<^verbatim>\<open>RSIIndicator\<close>, \<^verbatim>\<open>datetime.strptime\<close>, \<^verbatim>\<open>datetime.now\<close>.\<close>

record lib =
  rsi_last :: "cell list \<Rightarrow> cell"
  strptime :: "string \<Rightarrow> int option"
  today :: int

text \<open>The anomaly strings appended to \<^verbatim>\<open>sanity_flags\<close>, in the order of the checks.\<close>

datatype flag =
    ShareStructure
  | RevenueGrowthHigh real
  | QuarterlyEpsGrowthAbnormal real
  | ForwardEpsGrowthAbnormal real
  | LowBaseEffect real real
  | PegLow real
  | EpsVolatile real

text \<open>\<^verbatim>\<open>ticker.upper().strip()\<close> on the ASCII characters.\<close>

definition upper_char :: "char \<Rightarrow> char" where
  "upper_char c =
     (let n = (of_char c :: nat) in if 97 \<le> n \<and> n \<le> 122 then char_of (n - 32) else c)"

definition is_space :: "char \<Rightarrow> bool" where
  "is_space c = (let n = (of_char c :: nat) in (9 \<le> n \<and> n \<le> 13) \<or> (28 \<le> n \<and> n \<le> 32))"

definition upper_strip :: "string \<Rightarrow> string" where
  "upper_strip s = rev (dropWhile is_space (rev (dropWhile is_space (map upper_char s))))"

text \<open>Lines 433-435.\<close>

definition forward_growth :: "real option \<Rightarrow> real option \<Rightarrow> real option" where
  "forward_growth trailing forward =
     (case (trailing, forward) of
        (Some t, Some f) \<Rightarrow> if \<bar>t\<bar> > 0.01 then Some ((f - t) / \<bar>t\<bar>) else None
      | _ \<Rightarrow> None)"

text \<open>Check 1 (lines 442-447).\<close>

definition check_shares :: "real option \<Rightarrow> real option \<Rightarrow> flag list" where
  "check_shares shares_outstanding float_shares =
     (case (shares_outstanding, float_shares) of
        (Some so, Some fs) \<Rightarrow>
          if so \<noteq> 0 \<and> fs \<noteq> 0 \<and> fs > 0 \<and> so / fs > 1.3 then [ShareStructure] else []
      | _ \<Rightarrow> [])"

text \<open>Checks 2 and 3 (lines 450-461): the flag, and the field kept or nulled.\<close>

definition check_revenue :: "real option \<Rightarrow> flag list \<times> real option" where
  "check_revenue rev_growth =
     (case rev_growth of
        None \<Rightarrow> ([], None)
      | Some v \<Rightarrow> if v > REV_GROWTH_CAP then ([RevenueGrowthHigh v], None) else ([], Some v))"

definition check_eps :: "real option \<Rightarrow> flag list \<times> real option" where
  "check_eps eps_growth =
     (case eps_growth of
        None \<Rightarrow> ([], None)
      | Some v \<Rightarrow>
          if \<bar>v\<bar> > EPS_GROWTH_CAP then ([QuarterlyEpsGrowthAbnormal v], None) else ([], Some v))"

definition check_eps_forward :: "real option \<Rightarrow> flag list \<times> real option" where
  "check_eps_forward eps_growth_forward =
     (case eps_growth_forward of
        None \<Rightarrow> ([], None)
      | Some v \<Rightarrow>
          if \<bar>v\<bar> > EPS_GROWTH_CAP then ([ForwardEpsGrowthAbnormal v], None) else ([], Some v))"

text \<open>Check 4 (lines 464-466).\<close>

definition check_low_base ::
  "real option \<Rightarrow> real option \<Rightarrow> real option \<Rightarrow> flag list \<times> real option" where
  "check_low_base trailing forward eps_growth_forward =
     (case (trailing, forward) of
        (Some t, Some f) \<Rightarrow>
          if \<bar>t\<bar> < 0.50 \<and> f > 5.0 then ([LowBaseEffect t f], None) else ([], eps_growth_forward)
      | _ \<Rightarrow> ([], eps_growth_forward))"

text \<open>Check 5 (lines 469-470): a flag only.\<close>

definition check_peg :: "real option \<Rightarrow> flag list" where
  "check_peg p = (case p of None \<Rightarrow> [] | Some v \<Rightarrow> if v < 0.2 then [PegLow v] else [])"

text \<open>Check 6 (lines 473-483): \<^verbatim>\<open>np.std\<close> is the population standard deviation. An exception
  inside the check is swallowed.\<close>

definition np_std :: "real list \<Rightarrow> real" where
  "np_std xs = sqrt (mean (map (\<lambda>x. (x - mean xs)\<^sup>2) xs))"

definition check_volatility :: "exn + real option list \<Rightarrow> flag list" where
  "check_volatility qe =
     (case qe of
        Inl e \<Rightarrow> []
      | Inr col \<Rightarrow>
          if length col \<ge> 4 then
            (let dropna = List.map_filter id col;
                 eps_vals = drop (length dropna - 4) dropna
             in if length eps_vals \<ge> 4 then
                  (let eps_std = np_std eps_vals; eps_mean = mean (map abs eps_vals)
                   in if eps_mean > 0 \<and> eps_std / eps_mean > EPS_VOLATILITY_MAX
                      then [EpsVolatile (eps_std / eps_mean)] else [])
                else [])
          else [])"

text \<open>
  The evidence of a ticker after the sanity checks (lines 427-493): the values every
  \<^verbatim>\<open>StockResult\<close> of the funnel carries. The flags are appended in the order of the checks.
\<close>

record evidence =
  e_price :: "real option"
  e_rev_growth :: "real option"
  e_eps_growth :: "real option"
  e_eps_growth_forward :: "real option"
  e_trailing_eps :: "real option"
  e_forward_eps :: "real option"
  e_peg :: "real option"
  e_market_cap :: "real option"
  e_upside :: "real option"
  e_sanity_flags :: "flag list"

definition collect_evidence :: "info \<Rightarrow> tech \<Rightarrow> exn + real option list \<Rightarrow> evidence" where
  "collect_evidence nfo tech qe =
     (let price = t_price tech;
          trailing_eps = safe_float (trailingEps nfo);
          forward_eps = safe_float (forwardEps nfo);
          peg0 = safe_float (pegRatio nfo);
          flags1 = check_shares (safe_float (sharesOutstanding nfo)) (safe_float (floatShares nfo));
          (flags2, rev_growth) = check_revenue (safe_float (revenueGrowth nfo));
          (flags3, eps_growth) = check_eps (safe_float (earningsGrowth nfo));
          (flags3f, eps_growth_forward1) =
             check_eps_forward (forward_growth trailing_eps forward_eps);
          (flags4, eps_growth_forward) =
             check_low_base trailing_eps forward_eps eps_growth_forward1;
          flags5 = check_peg peg0;
          flags6 = check_volatility qe;
          peg = (case peg0 of None \<Rightarrow> safe_float (trailingPegRatio nfo) | Some p \<Rightarrow> Some p);
          market_cap = safe_float (marketCap nfo);
          target_price =
            (case safe_float (targetMeanPrice nfo) of
               None \<Rightarrow> safe_float (targetMedianPrice nfo)
             | Some t \<Rightarrow> Some t);
          upside =
            (case (target_price, price) of
               (Some t, Some p) \<Rightarrow> if p > 0 then Some (t / p - 1.0) else None
             | _ \<Rightarrow> None)
      in \<lparr>e_price = price, e_rev_growth = rev_growth, e_eps_growth = eps_growth,
          e_eps_growth_forward = eps_growth_forward, e_trailing_eps = trailing_eps,
          e_forward_eps = forward_eps, e_peg = peg, e_market_cap = market_cap,
          e_upside = upside,
          e_sanity_flags = flags1 @ flags2 @ flags3 @ flags3f @ flags4 @ flags5 @ flags6\<rparr>)"

text \<open>Layer 1 (lines 497-507) and Layer 2 (lines 534-543).\<close>

definition exceeds :: "real option \<Rightarrow> real \<Rightarrow> bool" where
  "exceeds x bound = (case x of None \<Rightarrow> False | Some v \<Rightarrow> v > bound)"

definition below :: "real option \<Rightarrow> real \<Rightarrow> bool" where
  "below x bound = (case x of None \<Rightarrow> False | Some v \<Rightarrow> v < bound)"

definition layer1 :: "evidence \<Rightarrow> bool" where
  "layer1 ev =
     (let eps_pass = (exceeds (e_eps_growth ev) EPS_GROWTH_MIN
                      \<or> exceeds (e_eps_growth_forward ev) EPS_GROWTH_MIN)
      in exceeds (e_rev_growth ev) REV_GROWTH_MIN
         \<and> eps_pass
         \<and> below (e_peg ev) PEG_MAX
         \<and> exceeds (e_market_cap ev) MARKET_CAP_MIN
         \<and> exceeds (e_upside ev) UPSIDE_MIN)"

definition layer2 :: "bool \<Rightarrow> tech \<Rightarrow> bool" where
  "layer2 require_volume_spike tech =
     (let l2 = (below (t_rsi14 tech) RSI_MAX \<and> exceeds (t_drawdown_52w_pct tech) DRAWDOWN_MIN)
      in if require_volume_spike then l2 \<and> (t_vol_spike tech = Some True) else l2)"

text \<open>Lines 599-602: the better of the two EPS growth figures.\<close>

definition best_eps_growth :: "real option \<Rightarrow> real option \<Rightarrow> real option" where
  "best_eps_growth eps_growth eps_growth_forward =
     (case eps_growth_forward of
        None \<Rightarrow> eps_growth
      | Some f \<Rightarrow> (case eps_growth of None \<Rightarrow> Some f | Some q \<Rightarrow> if f > q then Some f else Some q))"

datatype reason =
    FailedLayer1
  | FailedLayer2
  | FailedLayer3 opt_reason
  | PassedAll
  | ProcessingFailed exn

record StockResult =
  ticker :: string
  score :: real
  layer1_pass :: bool
  layer2_pass :: bool
  layer3_pass :: bool
  reason :: reason
  current_price :: "real option"
  revenue_growth :: "real option"
  eps_growth :: "real option"
  eps_growth_forward :: "real option"
  trailing_eps :: "real option"
  forward_eps :: "real option"
  peg :: "real option"
  market_cap :: "real option"
  upside :: "real option"
  rsi14 :: "real option"
  drawdown_52w_pct :: "real option"
  vol_spike :: "bool option"
  vol_ratio :: "real option"
  leap_expiry :: "string option"
  leap_strike :: "real option"
  call_bid :: "real option"
  call_ask :: "real option"
  call_spread_pct :: "real option"
  iv_rank :: "real option"
  required_move_for_2x_pct :: "real option"
  sanity_flags :: "flag list option"

text \<open>The result of the \<^verbatim>\<open>except\<close> branch (lines 649-657): every other field has its default.\<close>

definition failed :: "string \<Rightarrow> exn \<Rightarrow> StockResult" where
  "failed tkr e =
     \<lparr>ticker = tkr, score = 0.0, layer1_pass = False, layer2_pass = False, layer3_pass = False,
      reason = ProcessingFailed e, current_price = None, revenue_growth = None,
      eps_growth = None, eps_growth_forward = None, trailing_eps = None, forward_eps = None,
      peg = None, market_cap = None, upside = None, rsi14 = None, drawdown_52w_pct = None,
      vol_spike = None, vol_ratio = None, leap_expiry = None, leap_strike = None,
      call_bid = None, call_ask = None, call_spread_pct = None, iv_rank = None,
      required_move_for_2x_pct = None, sanity_flags = None\<rparr>"

text \<open>
  The four returns of the funnel (lines 509-530, 546-567, 574-595, 619-647) set the same
  evidence and technical fields; \<open>funnel_result\<close> is that common record, with the score, the
  flags of the layers, the reason and the option fields as each return gives them.
\<close>

definition funnel_result ::
  "string \<Rightarrow> evidence \<Rightarrow> tech \<Rightarrow> real \<Rightarrow> bool \<Rightarrow> bool \<Rightarrow> bool \<Rightarrow> reason \<Rightarrow> opt_metrics
   \<Rightarrow> StockResult" where
  "funnel_result tkr ev tech sc l1 l2 l3 why opt =
     \<lparr>ticker = tkr, score = sc, layer1_pass = l1, layer2_pass = l2, layer3_pass = l3,
      reason = why, current_price = e_price ev, revenue_growth = e_rev_growth ev,
      eps_growth = e_eps_growth ev, eps_growth_forward = e_eps_growth_forward ev,
      trailing_eps = e_trailing_eps ev, forward_eps = e_forward_eps ev, peg = e_peg ev,
      market_cap = e_market_cap ev, upside = e_upside ev, rsi14 = t_rsi14 tech,
      drawdown_52w_pct = t_drawdown_52w_pct tech, vol_spike = t_vol_spike tech,
      vol_ratio = t_vol_ratio tech, leap_expiry = o_expiry opt, leap_strike = o_strike opt,
      call_bid = o_bid opt, call_ask = o_ask opt, call_spread_pct = o_spread_pct opt,
      iv_rank = o_iv_rank opt,
      required_move_for_2x_pct = o_required_move_for_2x_pct opt,
      sanity_flags = (if e_sanity_flags ev = [] then None else Some (e_sanity_flags ev))\<rparr>"

definition metrics_of :: "evidence \<Rightarrow> tech \<Rightarrow> opt_metrics \<Rightarrow> metrics" where
  "metrics_of ev tech opt =
     \<lparr>m_revenue_growth = e_rev_growth ev,
      m_eps_growth = best_eps_growth (e_eps_growth ev) (e_eps_growth_forward ev),
      m_peg = e_peg ev, m_market_cap = e_market_cap ev, m_upside = e_upside ev,
      m_rsi14 = t_rsi14 tech, m_drawdown_52w_pct = t_drawdown_52w_pct tech,
      m_vol_ratio = t_vol_ratio tech, m_call_spread_pct = o_spread_pct opt,
      m_iv_rank = o_iv_rank opt,
      m_required_move_for_2x_pct = o_required_move_for_2x_pct opt\<rparr>"

text \<open>
  The funnel once the info and the history are read (lines 425-647). The three failing returns
  leave the option fields at their defaults, which are the fields of \<open>opt_fail\<close>.
\<close>

definition funnel ::
  "lib \<Rightarrow> ticker_api \<Rightarrow> string \<Rightarrow> bool \<Rightarrow> info \<Rightarrow> bar list \<Rightarrow> StockResult" where
  "funnel lb tk tkr require_volume_spike nfo hist =
     (let tech = get_technical_metrics (rsi_last lb) hist;
          ev = collect_evidence nfo tech (tk_quarterly_earnings tk)
      in if \<not> layer1 ev then
           funnel_result tkr ev tech 0.0 False False False FailedLayer1 (opt_fail OK)
         else if \<not> layer2 require_volume_spike tech then
           funnel_result tkr ev tech 0.0 True False False FailedLayer2 (opt_fail OK)
         else
           (case get_option_metrics (strptime lb) (today lb) (tk_options tk) (tk_option_chain tk)
                   (py_or (e_price ev) 0.0) LONG_DTE_MONTHS of
              Inl e \<Rightarrow> failed tkr e
            | Inr opt \<Rightarrow>
                if \<not> o_layer3_pass opt then
                  funnel_result tkr ev tech 0.0 True True False (FailedLayer3 (o_reason opt))
                    (opt_fail OK)
                else
                  funnel_result tkr ev tech (score_stock (metrics_of ev tech opt))
                    True True True PassedAll opt))"

definition analyze_ticker :: "lib \<Rightarrow> ticker_api \<Rightarrow> string \<Rightarrow> bool \<Rightarrow> StockResult" where
  "analyze_ticker lb tk raw_ticker require_volume_spike =
     (let tkr = upper_strip raw_ticker
      in case tk_info tk of
           Inl e \<Rightarrow> failed tkr e
         | Inr nfo \<Rightarrow>
             (case tk_history tk of
                Inl e \<Rightarrow> failed tkr e
              | Inr hist \<Rightarrow> funnel lb tk tkr require_volume_spike nfo hist))"

text \<open>
  The loop of \<^verbatim>\<open>main\<close> (lines 800-805): one result for each ticker of the universe, in its
  order. \<open>yf\<close> is \<^verbatim>\<open>yf.Ticker\<close>, the handle of each ticker.
\<close>

definition scan :: "lib \<Rightarrow> (string \<Rightarrow> ticker_api) \<Rightarrow> bool \<Rightarrow> string list \<Rightarrow> StockResult list" where
  "scan lb yf require_volume_spike universe =
     map (\<lambda>t. analyze_ticker lb (yf t) t require_volume_spike) universe"

subsection \<open>Notions the properties of the Option Selector are stated with\<close>

text \<open>
  The implied volatilities the Option Selector observes, stated on its own: the positive
  implied volatility of the contract picked at each eligible expiration, in the order of the
  first loop's lookups (numbered from \<open>k\<close>). Lemma \<open>collect_atm_fst\<close> shows that the first
  loop builds this list.
\<close>

fun observed_ivs :: "chain_provider \<Rightarrow> real \<Rightarrow> nat \<Rightarrow> (string \<times> int) list \<Rightarrow> real list" where
  "observed_ivs chain spot k [] = []"
| "observed_ivs chain spot k ((expiry, dd) # rest) =
     (case atm_at chain spot k expiry of
        None \<Rightarrow> []
      | Some atm \<Rightarrow>
          (case c_impliedVolatility atm of
             None \<Rightarrow> []
           | Some iv \<Rightarrow> if iv > 0 then [iv] else []))
     @ observed_ivs chain spot (Suc k) rest"

text \<open>A quote the source computes a premium from (the guard of line 312).\<close>

definition usable_quote :: "contract \<Rightarrow> bool" where
  "usable_quote c = (case (c_bid c, c_ask c) of (Some b, Some a) \<Rightarrow> a > 0 | _ \<Rightarrow> False)"

text \<open>
  Lookup \<open>k\<close> answers with at least one call contract; and some lookup the two loops make
  does so for a contract they would choose: in the first loop (lookups \<open>0 .. n - 1\<close>) at the
  preferred expiration, in the second (lookups \<open>n .. 2n - 1\<close>) at any eligible one.
\<close>

definition lookup_gives_contract :: "chain_provider \<Rightarrow> nat \<Rightarrow> string \<Rightarrow> bool" where
  "lookup_gives_contract chain k expiry =
     (case chain k expiry of Inl e \<Rightarrow> False | Inr calls \<Rightarrow> calls \<noteq> [])"

definition some_lookup_gives_contract :: "chain_provider \<Rightarrow> (string \<times> int) list \<Rightarrow> bool" where
  "some_lookup_gives_contract chain ve =
     (\<exists>i<length ve.
        (fst (ve ! i) = fst (hd ve) \<and> lookup_gives_contract chain i (fst (ve ! i)))
        \<or> lookup_gives_contract chain (length ve + i) (fst (ve ! i)))"

definition two_distinct :: "real list \<Rightarrow> bool" where
  "two_distinct xs = (\<exists>x\<in>set xs. \<exists>y\<in>set xs. x \<noteq> y)"

subsection \<open>Notions the properties of the Funnel Evaluator are stated with\<close>

text \<open>
  A read of the provider raises \<open>e\<close> outside the two inner handlers of the source (those around
  the quarterly earnings and around each chain lookup): \<^verbatim>\<open>tk.info\<close>, else \<^verbatim>\<open>tk.history\<close>, else
  \<^verbatim>\<open>tk.options\<close> once Layers 1 and 2 have passed.
\<close>

definition retrieval_raises :: "lib \<Rightarrow> ticker_api \<Rightarrow> bool \<Rightarrow> exn \<Rightarrow> bool" where
  "retrieval_raises lb tk require_volume_spike e =
     (case tk_info tk of
        Inl x \<Rightarrow> x = e
      | Inr nfo \<Rightarrow>
          (case tk_history tk of
             Inl x \<Rightarrow> x = e
           | Inr hist \<Rightarrow>
               (let tech = get_technical_metrics (rsi_last lb) hist;
                    ev = collect_evidence nfo tech (tk_quarterly_earnings tk)
                in layer1 ev \<and> layer2 require_volume_spike tech \<and> tk_options tk = Inl e)))"

subsection \<open>Example inputs\<close>

text \<open>A parser for four expiration strings (as day numbers from today = 0), a contract with
  strike 105, and two providers of chains.\<close>

definition ex_strptime :: "string \<Rightarrow> int option" where
  "ex_strptime d =
     (if d = ''2027-09-17'' then Some 690
      else if d = ''2027-12-17'' then Some 781
      else if d = ''2028-01-21'' then Some 816
      else if d = ''2026-05-15'' then Some 200
      else None)"

definition ex_contract :: "real option \<Rightarrow> real option \<Rightarrow> real option \<Rightarrow> contract" where
  "ex_contract b a iv =
     \<lparr>c_strike = Some 105, c_openInterest = Some 10, c_bid = b, c_ask = a,
      c_impliedVolatility = iv\<rparr>"

definition const_chain :: "contract \<Rightarrow> chain_provider" where
  "const_chain c = (\<lambda>k expiry. Inr [c])"

definition ex_chain3 :: "real option \<Rightarrow> chain_provider" where
  "ex_chain3 iv_first =
     (\<lambda>k expiry.
        if expiry = ''2027-09-17'' then Inr [ex_contract (Some 8) (Some 9) iv_first]
        else if expiry = ''2027-12-17'' then Inr [ex_contract (Some 8) (Some 9) (Some (1 / 4))]
        else if expiry = ''2028-01-21'' then Inr [ex_contract (Some 8) (Some 9) (Some (3 / 4))]
        else Inl ''no such expiration'')"

text \<open>
  A library, a ticker that passes every layer (30 flat bars at 100, an RSI of 45, a target
  price of 118, one eligible expiration with one contract), and a universe in which
  \<^verbatim>\<open>MSFT\<close> cannot be retrieved and every ticker but \<^verbatim>\<open>AAPL\<close> has an empty history.
\<close>

definition ex_lib :: lib where
  "ex_lib = \<lparr>rsi_last = (\<lambda>close. Num 45), strptime = ex_strptime, today = 0\<rparr>"

definition ex_info :: info where
  "ex_info =
     \<lparr>revenueGrowth = PyNum (9 / 20), earningsGrowth = PyNone, trailingEps = PyNum 4,
      forwardEps = PyNum 5, pegRatio = PyNum (6 / 5), trailingPegRatio = PyNone,
      sharesOutstanding = PyNone, floatShares = PyNone, marketCap = PyNum 10000000000,
      targetMeanPrice = PyNum 118, targetMedianPrice = PyNone\<rparr>"

definition ex_hist :: "bar list" where
  "ex_hist = replicate 30 \<lparr>Close = Num 100, Volume = Num 1000\<rparr>"

definition ex_tk :: "exn + info \<Rightarrow> exn + bar list \<Rightarrow> ticker_api" where
  "ex_tk nfo hist =
     \<lparr>tk_info = nfo, tk_history = hist, tk_quarterly_earnings = Inl ''unavailable'',
      tk_options = Inr [''2027-12-17''],
      tk_option_chain = const_chain (ex_contract (Some 8) (Some 9) (Some (1 / 2)))\<rparr>"

definition ex_yf :: "string \<Rightarrow> ticker_api" where
  "ex_yf t =
     (if t = ''MSFT'' then ex_tk (Inl ''HTTP 404'') (Inr [])
      else if t = ''AAPL'' then ex_tk (Inr ex_info) (Inr ex_hist)
      else ex_tk (Inr ex_info) (Inr []))"

section \<open>Properties\<close>

lemmas thresholds =
  REV_GROWTH_MIN_def EPS_GROWTH_MIN_def PEG_MAX_def MARKET_CAP_MIN_def UPSIDE_MIN_def
  RSI_MAX_def DRAWDOWN_MIN_def LONG_DTE_MONTHS_def EPS_GROWTH_CAP_def REV_GROWTH_CAP_def
  EPS_VOLATILITY_MAX_def

subsection \<open>The Scorer\<close>

lemma clamp_bounds: "0 \<le> clamp v \<and> clamp v \<le> 100"
  by (simp add: clamp_def)

lemma round2_bounds:
  assumes "0 \<le> x" and "x \<le> 100"
  shows "0 \<le> round2 x \<and> round2 x \<le> 100"
proof -
  let ?y = "x * 100"
  have y: "0 \<le> ?y" "?y \<le> 10000" using assms by simp_all
  have f0: "0 \<le> \<lfloor>?y\<rfloor>" using y(1) by simp
  have f1: "\<lfloor>?y\<rfloor> \<le> 10000" using y(2) by (simp add: floor_le_iff)
  have lo: "0 \<le> round_half_even ?y"
    using f0 by (simp add: round_half_even_def Let_def)
  have hi: "round_half_even ?y \<le> 10000"
  proof (cases "\<lfloor>?y\<rfloor> = 10000")
    case True
    then have "of_int \<lfloor>?y\<rfloor> = (10000 :: real)" by simp
    moreover have "of_int \<lfloor>?y\<rfloor> \<le> ?y" by (rule of_int_floor_le)
    ultimately have "?y - of_int \<lfloor>?y\<rfloor> = 0" using y(2) by linarith
    then show ?thesis using True by (simp add: round_half_even_def Let_def)
  next
    case False
    with f1 have "\<lfloor>?y\<rfloor> + 1 \<le> 10000" by linarith
    with f1 show ?thesis by (simp add: round_half_even_def Let_def)
  qed
  have "0 \<le> (of_int (round_half_even ?y) :: real)" using lo by simp
  moreover have "(of_int (round_half_even ?y) :: real) \<le> 10000" using hi by simp
  ultimately show ?thesis by (simp add: round2_def)
qed

lemma score_stock_bounds: "0 \<le> score_stock m \<and> score_stock m \<le> 100"
  unfolding score_stock_def Let_def using clamp_bounds by (intro round2_bounds) simp_all

text \<open>
  Claim C6. The drawdown sub-term of the technical score is piecewise: a drawdown below -40
  gives 5, one from -25 to -5 (both included) gives 90, one strictly between -40 and -25
  gives 50, one above -5 gives 40. A drawdown of -18 gives 90 and one of -42 gives 5.
\<close>

theorem s_dd_piecewise:
  "(a < - 40 \<longrightarrow> s_dd (Some a) = 5)
   \<and> (- 25 \<le> b \<and> b \<le> - 5 \<longrightarrow> s_dd (Some b) = 90)
   \<and> (- 40 < c \<and> c < - 25 \<longrightarrow> s_dd (Some c) = 50)
   \<and> (- 5 < d \<longrightarrow> s_dd (Some d) = 40)
   \<and> s_dd (Some (- 18)) = 90 \<and> s_dd (Some (- 42)) = 5"
  by (simp add: s_dd_def if_none_def)

theorem s_dd_piecewise_witness:
  "(- 41 :: real) < - 40 \<and> s_dd (Some (- 41)) = 5
   \<and> (- 25 :: real) \<le> - 25 \<and> s_dd (Some (- 25)) = 90
   \<and> (- 40 :: real) < - 30 \<and> (- 30 :: real) < - 25 \<and> s_dd (Some (- 30)) = 50
   \<and> (- 5 :: real) < 0 \<and> s_dd (Some 0) = 40"
  using s_dd_piecewise [of "- 41" "- 25" "- 30" 0] by simp

text \<open>
  Claim C10, as stated: a volume ratio that is absent scores strictly higher on the volume
  sub-term than every measured ratio of 0.8 or below. A measured ratio of exactly 0 is such a
  ratio, and \<^verbatim>\<open>vol_ratio or 1.0\<close> replaces it by 1.0 as well: the two sub-terms are equal.
\<close>

theorem s_vol_zero_counterexample:
  "(0 :: real) \<le> 0.8 \<and> \<not> s_vol (Some 0) < s_vol None"
  by (simp add: s_vol_def py_or_def)

text \<open>
  Claim C10, amended. A volume ratio that is absent or equal to 0 is replaced by 1.0 in the
  Scorer, which gives the volume sub-term (1.0 - 0.8) / 1.2 * 100 = 50/3 and the score of a
  ratio of 1.0; a measured ratio of 0.8 or below other than 0 gives the sub-term 0, strictly
  less.
\<close>

theorem s_vol_substitution:
  "s_vol None = 50 / 3 \<and> s_vol (Some 0) = 50 / 3
   \<and> score_stock (m\<lparr>m_vol_ratio := None\<rparr>) = score_stock (m\<lparr>m_vol_ratio := Some 1.0\<rparr>)
   \<and> score_stock (m\<lparr>m_vol_ratio := Some 0\<rparr>) = score_stock (m\<lparr>m_vol_ratio := Some 1.0\<rparr>)
   \<and> (v \<le> 0.8 \<and> v \<noteq> 0 \<longrightarrow> s_vol (Some v) = 0 \<and> s_vol (Some v) < s_vol None)"
  by (simp add: s_vol_def py_or_def clamp_def score_stock_def)

theorem s_vol_substitution_witness:
  "(0.5 :: real) \<le> 0.8 \<and> (0.5 :: real) \<noteq> 0
   \<and> s_vol (Some 0.5) = 0 \<and> s_vol (Some 0.5) < s_vol None"
proof -
  fix m :: metrics
  from s_vol_substitution [of m "0.5"] show ?thesis by simp
qed

subsection \<open>The Option Selector\<close>

lemma pick_atm_call_eq_None: "pick_atm_call calls (Some s) = None \<longleftrightarrow> calls = []"
proof (cases "sort_key (atm_key s) calls")
  case Nil
  then have "length calls = 0" by (metis length_sort list.size(3))
  then show ?thesis by (simp add: pick_atm_call_def)
next
  case (Cons c cs)
  then have "calls \<noteq> []" by auto
  with Cons show ?thesis by (simp add: pick_atm_call_def)
qed

lemma pick_atm_call_mem: "pick_atm_call calls spot = Some c \<Longrightarrow> c \<in> set calls"
  by (auto simp: pick_atm_call_def split: option.splits if_splits list.splits)
     (metis list.set_intros(1) set_sort)

lemma atm_at_eq_None:
  "atm_at chain spot k e = None \<longleftrightarrow> (case chain k e of Inl x \<Rightarrow> True | Inr calls \<Rightarrow> calls = [])"
  by (simp add: atm_at_def pick_atm_call_eq_None split: sum.splits)

lemma collect_atm_fst:
  "fst (collect_atm chain spot p k ve (ivs, ch)) = ivs @ observed_ivs chain spot k ve"
  by (induction ve arbitrary: k ivs ch) (auto split: option.splits)

lemma collect_atm_snd:
  "snd (collect_atm chain spot p k ve (ivs, ch)) = None \<longleftrightarrow>
     ch = None \<and> (\<forall>i<length ve. fst (ve ! i) = p \<longrightarrow> atm_at chain spot (k + i) (fst (ve ! i)) = None)"
proof (induction ve arbitrary: k ivs ch)
  case Nil
  then show ?case by simp
next
  case (Cons x ve)
  obtain e d where x: "x = (e, d)" by (cases x)
  have al: "(\<forall>i<length (x # ve). Q i) \<longleftrightarrow> Q 0 \<and> (\<forall>i<length ve. Q (Suc i))" for Q
    by (auto simp: less_Suc_eq_0_disj)
  show ?case
    unfolding al
    by (cases "atm_at chain spot k e") (auto simp: x Cons.IH)
qed

lemma fallback_atm_eq_None:
  "fallback_atm chain spot k ve = None \<longleftrightarrow>
     (\<forall>i<length ve. atm_at chain spot (k + i) (fst (ve ! i)) = None)"
proof (induction ve arbitrary: k)
  case Nil
  then show ?case by simp
next
  case (Cons x ve)
  obtain e d where x: "x = (e, d)" by (cases x)
  have al: "(\<forall>i<length (x # ve). Q i) \<longleftrightarrow> Q 0 \<and> (\<forall>i<length ve. Q (Suc i))" for Q
    by (auto simp: less_Suc_eq_0_disj)
  show ?case
    unfolding al
    by (cases "atm_at chain spot k e") (auto simp: x Cons.IH)
qed


lemma select_contract_fst:
  "ve \<noteq> [] \<Longrightarrow> fst (select_contract chain spot ve) = observed_ivs chain spot 0 ve"
  using collect_atm_fst [of chain spot "fst (hd ve)" 0 ve "[]" None]
  by (cases ve) (auto simp: select_contract_def split: prod.splits)

lemma lookup_gives_contract_iff:
  "lookup_gives_contract chain k e \<longleftrightarrow> atm_at chain spot k e \<noteq> None"
  by (simp add: lookup_gives_contract_def atm_at_eq_None split: sum.splits)

lemma select_contract_snd:
  assumes "ve \<noteq> []"
  shows "snd (select_contract chain spot ve) = None \<longleftrightarrow> \<not> some_lookup_gives_contract chain ve"
proof -
  obtain e d rest where ve: "ve = (e, d) # rest" using assms by (cases ve) auto
  obtain ivs ch where c: "collect_atm chain spot e 0 ve ([], None) = (ivs, ch)"
    by (cases "collect_atm chain spot e 0 ve ([], None)")
  have ch: "ch = None \<longleftrightarrow>
      (\<forall>i<length ve. fst (ve ! i) = e \<longrightarrow> atm_at chain spot i (fst (ve ! i)) = None)"
    using collect_atm_snd [of chain spot e 0 ve "[]" None] c by simp
  have sel: "snd (select_contract chain spot ve) =
      (case ch of Some c \<Rightarrow> Some (e, c) | None \<Rightarrow> fallback_atm chain spot (length ve) ve)"
    using c unfolding select_contract_def ve
    by (simp del: collect_atm.simps fallback_atm.simps)
  have "snd (select_contract chain spot ve) = None \<longleftrightarrow>
      ch = None \<and> fallback_atm chain spot (length ve) ve = None"
    unfolding sel by (cases ch) auto
  also have "\<dots> \<longleftrightarrow> \<not> some_lookup_gives_contract chain ve"
    unfolding ch fallback_atm_eq_None some_lookup_gives_contract_def
      lookup_gives_contract_iff [of chain _ _ spot]
    by (auto simp: ve)
  finally show ?thesis .
qed

lemma fallback_atm_expiry:
  "fallback_atm chain spot k ve = Some (e, c) \<Longrightarrow> e \<in> fst ` set ve"
proof (induction ve arbitrary: k)
  case Nil
  then show ?case by simp
next
  case (Cons x ve)
  obtain e0 d0 where x: "x = (e0, d0)" by (cases x)
  show ?case
  proof (cases "atm_at chain spot k e0")
    case None
    with Cons.prems have "fallback_atm chain spot (Suc k) ve = Some (e, c)" by (simp add: x)
    then have "e \<in> fst ` set ve" by (rule Cons.IH)
    then show ?thesis by simp
  next
    case (Some atm)
    with Cons.prems show ?thesis by (simp add: x)
  qed
qed

lemma select_contract_expiry:
  assumes "snd (select_contract chain spot ve) = Some (e, c)"
  shows "e \<in> fst ` set ve"
proof (cases ve)
  case Nil
  with assms show ?thesis by (simp add: select_contract_def)
next
  case (Cons x rest)
  obtain e0 d0 where x: "x = (e0, d0)" by (cases x)
  obtain ivs ch where cl: "collect_atm chain spot e0 0 ((e0, d0) # rest) ([], None) = (ivs, ch)"
    by (cases "collect_atm chain spot e0 0 ((e0, d0) # rest) ([], None)")
  have sel: "(case ch of Some c \<Rightarrow> Some (e0, c)
              | None \<Rightarrow> fallback_atm chain spot (length ve) ve) = Some (e, c)"
    using assms cl unfolding select_contract_def Cons x
    by (simp del: collect_atm.simps fallback_atm.simps)
  show ?thesis
  proof (cases ch)
    case None
    with sel show ?thesis by (simp add: fallback_atm_expiry)
  next
    case (Some c')
    with sel show ?thesis by (simp add: Cons x)
  qed
qed

lemma get_option_metrics_Inr:
  "get_option_metrics sp td (Inr opts) chain spot mm =
     Inr (let ve = valid_expiries sp td mm opts
          in if opts = [] then opt_fail NoOptionChain
             else if ve = [] then opt_fail (NoLongDated mm)
             else (case snd (select_contract chain spot ve) of
                     None \<Rightarrow> opt_fail NoAtmCall
                   | Some (e, c) \<Rightarrow> quote_of e c (observed_ivs chain spot 0 ve) spot))"
proof (cases "opts \<noteq> [] \<and> valid_expiries sp td mm opts \<noteq> []")
  case True
  then have "fst (select_contract chain spot (valid_expiries sp td mm opts)) =
      observed_ivs chain spot 0 (valid_expiries sp td mm opts)"
    by (simp add: select_contract_fst)
  with True show ?thesis
    by (cases "select_contract chain spot (valid_expiries sp td mm opts)")
       (auto simp: get_option_metrics_def Let_def split: option.splits)
next
  case False
  then show ?thesis by (auto simp: get_option_metrics_def Let_def)
qed

lemma set_map_filter_eq: "set (List.map_filter f xs) = {y. \<exists>x\<in>set xs. f x = Some y}"
  by (induction xs) (auto split: option.splits)

lemma valid_expiries_set:
  "(e, d) \<in> set (valid_expiries sp td mm opts) \<longleftrightarrow>
     e \<in> set opts \<and> sp e = Some d \<and> d > td + mm * 30"
  by (auto simp: valid_expiries_def Let_def set_map_filter_eq split: option.splits if_splits)

lemma get_option_metrics_cases:
  assumes "get_option_metrics sp td (Inr opts) chain spot mm = Inr r"
  obtains (fail) why where "r = opt_fail why"
      and "snd (select_contract chain spot (valid_expiries sp td mm opts)) = None"
    | (quote) e c where "opts \<noteq> []" and "valid_expiries sp td mm opts \<noteq> []"
      and "snd (select_contract chain spot (valid_expiries sp td mm opts)) = Some (e, c)"
      and "r = quote_of e c (observed_ivs chain spot 0 (valid_expiries sp td mm opts)) spot"
proof -
  let ?ve = "valid_expiries sp td mm opts"
  have ve_nil: "?ve = []" if "opts = []"
    using that by (simp add: valid_expiries_def)
  have sel_nil: "snd (select_contract chain spot []) = None"
    by (simp add: select_contract_def)
  consider (a) "opts = []" | (b) "opts \<noteq> []" "?ve = []"
    | (c) "opts \<noteq> []" "?ve \<noteq> []" "snd (select_contract chain spot ?ve) = None"
    | (d) e c where "opts \<noteq> []" "?ve \<noteq> []" "snd (select_contract chain spot ?ve) = Some (e, c)"
    by (cases "snd (select_contract chain spot ?ve)") auto
  then show thesis
  proof cases
    case a
    with assms have "r = opt_fail NoOptionChain" by (simp add: get_option_metrics_def)
    then show ?thesis using fail a ve_nil sel_nil by simp
  next
    case b
    with assms have "r = opt_fail (NoLongDated mm)" by (simp add: get_option_metrics_def)
    then show ?thesis using fail b sel_nil by simp
  next
    case c
    with assms have "r = opt_fail NoAtmCall"
      unfolding get_option_metrics_Inr by (simp add: Let_def)
    then show ?thesis using fail c by simp
  next
    case d
    with assms have "r = quote_of e c (observed_ivs chain spot 0 ?ve) spot"
      unfolding get_option_metrics_Inr by (simp add: Let_def)
    then show ?thesis using quote d by simp
  qed
qed

lemma collect_atm_chosen:
  "snd (collect_atm chain spot p k ve (ivs, ch)) = Some c \<Longrightarrow>
     ch = Some c \<or> (\<exists>j. atm_at chain spot j p = Some c)"
proof (induction ve arbitrary: k ivs ch)
  case Nil
  then show ?case by simp
next
  case (Cons x ve)
  obtain e d where x: "x = (e, d)" by (cases x)
  show ?case
  proof (cases "atm_at chain spot k e")
    case None
    with Cons.prems have "snd (collect_atm chain spot p (Suc k) ve (ivs, ch)) = Some c"
      by (simp add: x)
    then show ?thesis by (rule Cons.IH)
  next
    case (Some atm)
    with Cons.prems obtain ivs' where
      "snd (collect_atm chain spot p (Suc k) ve (ivs', if e = p then Some atm else ch)) = Some c"
      by (simp add: x)
    then have "(if e = p then Some atm else ch) = Some c \<or> (\<exists>j. atm_at chain spot j p = Some c)"
      by (rule Cons.IH)
    with Some show ?thesis by (auto split: if_splits)
  qed
qed

lemma fallback_atm_chosen:
  "fallback_atm chain spot k ve = Some (e, c) \<Longrightarrow> \<exists>j. atm_at chain spot j e = Some c"
proof (induction ve arbitrary: k)
  case Nil
  then show ?case by simp
next
  case (Cons x ve)
  obtain e0 d0 where x: "x = (e0, d0)" by (cases x)
  show ?case
  proof (cases "atm_at chain spot k e0")
    case None
    with Cons.prems have "fallback_atm chain spot (Suc k) ve = Some (e, c)" by (simp add: x)
    then show ?thesis by (rule Cons.IH)
  next
    case (Some atm)
    with Cons.prems show ?thesis by (auto simp: x)
  qed
qed

lemma atm_at_Some:
  "atm_at chain spot j e = Some c \<Longrightarrow> \<exists>calls. chain j e = Inr calls \<and> c \<in> set calls"
  by (auto simp: atm_at_def split: sum.splits dest: pick_atm_call_mem)

lemma select_contract_chosen:
  assumes "snd (select_contract chain spot ve) = Some (e, c)"
  shows "\<exists>j calls. chain j e = Inr calls \<and> c \<in> set calls"
proof (cases ve)
  case Nil
  with assms show ?thesis by (simp add: select_contract_def)
next
  case (Cons x rest)
  obtain e0 d0 where x: "x = (e0, d0)" by (cases x)
  obtain ivs ch where cl: "collect_atm chain spot e0 0 ((e0, d0) # rest) ([], None) = (ivs, ch)"
    by (cases "collect_atm chain spot e0 0 ((e0, d0) # rest) ([], None)")
  have sel: "(case ch of Some c \<Rightarrow> Some (e0, c)
              | None \<Rightarrow> fallback_atm chain spot (length ve) ve) = Some (e, c)"
    using assms cl unfolding select_contract_def Cons x
    by (simp del: collect_atm.simps fallback_atm.simps)
  have "\<exists>j. atm_at chain spot j e = Some c"
  proof (cases ch)
    case None
    with sel show ?thesis by (simp add: fallback_atm_chosen)
  next
    case (Some c')
    with sel have "e = e0" "c' = c" by simp_all
    with Some cl collect_atm_chosen [of chain spot e0 0 "(e0, d0) # rest" "[]" None c]
    show ?thesis by simp
  qed
  then show ?thesis by (blast dest: atm_at_Some)
qed

lemma two_distinct_iff:
  "two_distinct xs \<longleftrightarrow> length xs \<ge> 2 \<and> Max (set xs) > Min (set xs)"
proof
  assume "two_distinct xs"
  then obtain a b where ab: "a \<in> set xs" "b \<in> set xs" "a \<noteq> b"
    unfolding two_distinct_def by blast
  have "Min (set xs) \<le> a" "Min (set xs) \<le> b" "a \<le> Max (set xs)" "b \<le> Max (set xs)"
    using ab by simp_all
  with ab(3) have lt: "Min (set xs) < Max (set xs)" by linarith
  have len: "length xs \<ge> 2"
  proof (cases xs)
    case Nil
    with ab show ?thesis by simp
  next
    case (Cons x ys)
    show ?thesis
    proof (cases ys)
      case Nil
      with Cons ab show ?thesis by simp
    next
      case (Cons y zs)
      with \<open>xs = x # ys\<close> show ?thesis by simp
    qed
  qed
  from len lt show "length xs \<ge> 2 \<and> Max (set xs) > Min (set xs)" ..
next
  assume a: "length xs \<ge> 2 \<and> Max (set xs) > Min (set xs)"
  then have ne: "set xs \<noteq> {}" by auto
  have "Min (set xs) \<in> set xs" "Max (set xs) \<in> set xs"
    using ne by simp_all
  moreover from a have "Min (set xs) \<noteq> Max (set xs)" by simp
  ultimately show "two_distinct xs" unfolding two_distinct_def by blast
qed

lemma iv_rank_of_Some:
  "iv_rank_of (Some iv) ivs =
     (if two_distinct ivs
      then Some (clamp ((iv - Min (set ivs)) / (Max (set ivs) - Min (set ivs)) * 100))
      else None)"
  unfolding two_distinct_iff by (simp add: iv_rank_of_def Let_def)

text \<open>
  Claim C3, as stated: the result of the Option Selector is populated only when some contract
  of an eligible expiration has a usable bid/ask quote. The selector never looks at the quote
  when it picks a contract: with one eligible expiration whose only contract has neither bid
  nor ask, Layer 3 passes and the expiry and strike are populated.
\<close>

theorem option_quote_without_usable_quote_counterexample:
  "\<not> usable_quote (ex_contract None None (Some (1 / 2)))
   \<and> map_sum id (\<lambda>r. (o_layer3_pass r, o_expiry r, o_strike r, o_bid r, o_ask r))
        (get_option_metrics ex_strptime 0 (Inr [''2027-12-17''])
           (const_chain (ex_contract None None (Some (1 / 2)))) 100 9)
       = Inr (True, Some ''2027-12-17'', Some 105, None, None)"
  by (simp add: get_option_metrics_def valid_expiries_def ex_strptime_def
      select_contract_def atm_at_def const_chain_def pick_atm_call_def ex_contract_def
      quote_of_def usable_quote_def Let_def)

text \<open>
  Claim C3, amended. The result is populated (Layer 3 passes) exactly when some lookup of an
  eligible expiration answers with a contract the loops would choose. Then the expiry is an
  expiration of the list that parses to a date after the cutoff, and strike, bid and ask are
  those of a contract of that expiration's chain, each as present or absent as the contract
  has it. In every other case all fields are absent and Layer 3 fails.
\<close>

theorem option_quote_populated_iff:
  assumes "get_option_metrics sp td (Inr opts) chain spot mm = Inr r"
  shows "(o_layer3_pass r \<longleftrightarrow> some_lookup_gives_contract chain (valid_expiries sp td mm opts))
     \<and> (o_layer3_pass r \<longrightarrow>
          (\<exists>e d c k calls.
              o_expiry r = Some e \<and> e \<in> set opts \<and> sp e = Some d \<and> d > td + mm * 30
              \<and> chain k e = Inr calls \<and> c \<in> set calls
              \<and> o_strike r = c_strike c \<and> o_bid r = c_bid c \<and> o_ask r = c_ask c))
     \<and> (\<not> o_layer3_pass r \<longrightarrow>
          o_expiry r = None \<and> o_strike r = None \<and> o_bid r = None \<and> o_ask r = None
          \<and> o_spread_pct r = None \<and> o_iv_rank r = None
          \<and> o_required_move_for_2x_pct r = None)"
  using assms
proof (cases rule: get_option_metrics_cases)
  case (fail why)
  let ?ve = "valid_expiries sp td mm opts"
  have "\<not> some_lookup_gives_contract chain ?ve"
  proof (cases "?ve = []")
    case True
    then show ?thesis by (simp add: some_lookup_gives_contract_def)
  next
    case False
    then show ?thesis using fail(2) select_contract_snd [of ?ve chain spot] by simp
  qed
  then show ?thesis unfolding fail(1) by (simp add: opt_fail_def)
next
  case (quote e c)
  let ?ve = "valid_expiries sp td mm opts"
  have some: "some_lookup_gives_contract chain ?ve"
    using quote(2,3) select_contract_snd [of ?ve chain spot] by simp
  have "e \<in> fst ` set ?ve" using quote(3) by (rule select_contract_expiry)
  then obtain d where "(e, d) \<in> set ?ve" by auto
  then have elig: "e \<in> set opts" "sp e = Some d" "d > td + mm * 30"
    by (simp_all add: valid_expiries_set)
  obtain k calls where lk: "chain k e = Inr calls" "c \<in> set calls"
    using select_contract_chosen [OF quote(3)] by blast
  have fields: "o_layer3_pass r" "o_expiry r = Some e" "o_strike r = c_strike c"
      "o_bid r = c_bid c" "o_ask r = c_ask c"
    unfolding quote(4) by (simp_all add: quote_of_def Let_def)
  from some elig lk fields show ?thesis by blast
qed

theorem option_quote_populated_iff_witness:
  "get_option_metrics ex_strptime 0 (Inr [''2027-12-17''])
      (const_chain (ex_contract None None (Some (1 / 2)))) 100 9
     = Inr (quote_of ''2027-12-17'' (ex_contract None None (Some (1 / 2))) [1 / 2] 100)
   \<and> o_layer3_pass (quote_of ''2027-12-17'' (ex_contract None None (Some (1 / 2))) [1 / 2] 100)
   \<and> some_lookup_gives_contract (const_chain (ex_contract None None (Some (1 / 2))))
        (valid_expiries ex_strptime 0 9 [''2027-12-17''])
   \<and> get_option_metrics ex_strptime 0 (Inr [''2027-12-17'']) (\<lambda>k e. Inl ''timeout'') 100 9
     = Inr (opt_fail NoAtmCall)
   \<and> \<not> some_lookup_gives_contract (\<lambda>k e. Inl ''timeout'')
        (valid_expiries ex_strptime 0 9 [''2027-12-17''])"
proof -
  let ?c = "ex_contract None None (Some (1 / 2))"
  let ?r = "quote_of ''2027-12-17'' ?c [1 / 2] 100"
  have g: "get_option_metrics ex_strptime 0 (Inr [''2027-12-17'']) (const_chain ?c) 100 9 = Inr ?r"
    by (simp add: get_option_metrics_def valid_expiries_def ex_strptime_def
        select_contract_def atm_at_def const_chain_def pick_atm_call_def ex_contract_def)
  have p: "o_layer3_pass ?r" by (simp add: quote_of_def Let_def)
  have h: "get_option_metrics ex_strptime 0 (Inr [''2027-12-17'']) (\<lambda>k e. Inl ''timeout'') 100 9
      = Inr (opt_fail NoAtmCall)"
    by (simp add: get_option_metrics_def valid_expiries_def ex_strptime_def
        select_contract_def atm_at_def)
  have q: "\<not> o_layer3_pass (opt_fail NoAtmCall)" by (simp add: opt_fail_def)
  from option_quote_populated_iff [OF g] p option_quote_populated_iff [OF h] q g h
  show ?thesis by blast
qed

text \<open>
  Claim C4, as stated: the proxy of the IV rank is defined if and only if at least two
  distinct implied volatilities were observed. It also needs the implied volatility of the
  chosen contract: with the preferred expiration's contract lacking one and two later
  expirations observed at 1/4 and 3/4, the proxy is absent.
\<close>

theorem iv_rank_absent_counterexample:
  "observed_ivs (ex_chain3 None) 100 0
     (valid_expiries ex_strptime 0 9 [''2027-12-17'', ''2027-09-17'', ''2026-05-15'', ''2028-01-21''])
     = [1 / 4, 3 / 4]
   \<and> (1 / 4 :: real) \<noteq> 3 / 4
   \<and> map_sum id (\<lambda>r. (o_layer3_pass r, o_expiry r, o_iv_rank r))
        (get_option_metrics ex_strptime 0
           (Inr [''2027-12-17'', ''2027-09-17'', ''2026-05-15'', ''2028-01-21''])
           (ex_chain3 None) 100 9)
       = Inr (True, Some ''2027-09-17'', None)"
  by (simp add: get_option_metrics_def valid_expiries_def ex_strptime_def
      select_contract_def atm_at_def ex_chain3_def pick_atm_call_def ex_contract_def
      quote_of_def iv_rank_of_def Let_def)

text \<open>
  Claim C4, amended. When Layer 3 fails the proxy is absent. When it passes, the proxy is
  defined if and only if the chosen contract has an implied volatility and at least two
  distinct values were observed; it is then the position of the chosen contract's implied
  volatility between the least and the greatest observed value, times 100, clamped to
  0..100.
\<close>

theorem iv_rank_proxy:
  assumes "get_option_metrics sp td (Inr opts) chain spot mm = Inr r"
  shows "(\<not> o_layer3_pass r \<longrightarrow> o_iv_rank r = None)
     \<and> (o_layer3_pass r \<longrightarrow>
          (\<exists>e c. snd (select_contract chain spot (valid_expiries sp td mm opts)) = Some (e, c)
             \<and> (let ivs = observed_ivs chain spot 0 (valid_expiries sp td mm opts)
                in (o_iv_rank r \<noteq> None \<longleftrightarrow> c_impliedVolatility c \<noteq> None \<and> two_distinct ivs)
                 \<and> (\<forall>iv. c_impliedVolatility c = Some iv \<and> two_distinct ivs \<longrightarrow>
                        o_iv_rank r =
                          Some (clamp ((iv - Min (set ivs)) / (Max (set ivs) - Min (set ivs))
                                        * 100))))))"
using assms
proof (cases rule: get_option_metrics_cases)
  case (fail why)
  then show ?thesis by (simp add: opt_fail_def)
next
  case (quote e c)
  let ?ivs = "observed_ivs chain spot 0 (valid_expiries sp td mm opts)"
  have rank: "o_iv_rank r = iv_rank_of (c_impliedVolatility c) ?ivs"
    unfolding quote(4) by (simp add: quote_of_def Let_def)
  have "o_iv_rank r \<noteq> None \<longleftrightarrow> c_impliedVolatility c \<noteq> None \<and> two_distinct ?ivs"
  proof (cases "c_impliedVolatility c")
    case None
    then show ?thesis unfolding rank by (simp add: iv_rank_of_def)
  next
    case (Some iv)
    then show ?thesis unfolding rank by (simp add: iv_rank_of_Some)
  qed
  moreover have "o_iv_rank r =
      Some (clamp ((iv - Min (set ?ivs)) / (Max (set ?ivs) - Min (set ?ivs)) * 100))"
    if "c_impliedVolatility c = Some iv" "two_distinct ?ivs" for iv
    unfolding rank using that by (simp add: iv_rank_of_Some)
  moreover have "o_layer3_pass r"
    unfolding quote(4) by (simp add: quote_of_def Let_def)
  ultimately show ?thesis using quote(3) unfolding Let_def by blast
qed


theorem iv_rank_proxy_witness:
  "get_option_metrics ex_strptime 0
      (Inr [''2027-12-17'', ''2027-09-17'', ''2026-05-15'', ''2028-01-21''])
      (ex_chain3 (Some (1 / 2))) 100 9
    = Inr (quote_of ''2027-09-17'' (ex_contract (Some 8) (Some 9) (Some (1 / 2)))
             [1 / 2, 1 / 4, 3 / 4] 100)
   \<and> o_layer3_pass (quote_of ''2027-09-17'' (ex_contract (Some 8) (Some 9) (Some (1 / 2)))
                  [1 / 2, 1 / 4, 3 / 4] 100)
   \<and> o_iv_rank (quote_of ''2027-09-17'' (ex_contract (Some 8) (Some 9) (Some (1 / 2)))
                  [1 / 2, 1 / 4, 3 / 4] 100) = Some 50"
proof -
  let ?opts = "[''2027-12-17'', ''2027-09-17'', ''2026-05-15'', ''2028-01-21'']"
  let ?c = "ex_contract (Some 8) (Some 9) (Some (1 / 2))"
  let ?ivs = "[1 / 2, 1 / 4, 3 / 4] :: real list"
  let ?r = "quote_of ''2027-09-17'' ?c ?ivs 100"
  let ?ve = "valid_expiries ex_strptime 0 9 ?opts"
  have ve: "?ve = [(''2027-09-17'', 690), (''2027-12-17'', 781), (''2028-01-21'', 816)]"
    by (simp add: valid_expiries_def ex_strptime_def)
  have ivs: "observed_ivs (ex_chain3 (Some (1 / 2))) 100 0 ?ve = ?ivs"
    unfolding ve by (simp add: atm_at_def ex_chain3_def pick_atm_call_def ex_contract_def)
  have sel: "snd (select_contract (ex_chain3 (Some (1 / 2))) 100 ?ve) = Some (''2027-09-17'', ?c)"
    unfolding ve by (simp add: select_contract_def atm_at_def ex_chain3_def pick_atm_call_def)
  have g: "get_option_metrics ex_strptime 0 (Inr ?opts) (ex_chain3 (Some (1 / 2))) 100 9 = Inr ?r"
    unfolding get_option_metrics_Inr Let_def sel ivs by (simp add: ve)
  have p: "o_layer3_pass ?r" by (simp add: quote_of_def Let_def)
  have iv: "c_impliedVolatility ?c = Some (1 / 2)" by (simp add: ex_contract_def)
  have td: "two_distinct ?ivs"
    unfolding two_distinct_def by (rule bexI [of _ "1 / 4"], rule bexI [of _ "3 / 4"]) simp_all
  from iv_rank_proxy [OF g] p obtain e c where
    ec: "snd (select_contract (ex_chain3 (Some (1 / 2))) 100 ?ve) = Some (e, c)"
    and rk: "\<And>v. c_impliedVolatility c = Some v \<Longrightarrow> two_distinct ?ivs \<Longrightarrow>
       o_iv_rank ?r = Some (clamp ((v - Min (set ?ivs)) / (Max (set ?ivs) - Min (set ?ivs)) * 100))"
    unfolding Let_def ivs by blast
  from ec sel have "c = ?c" by simp
  with rk [OF _ td] iv
  have "o_iv_rank ?r =
      Some (clamp ((1 / 2 - Min (set ?ivs)) / (Max (set ?ivs) - Min (set ?ivs)) * 100))"
    by blast
  then have "o_iv_rank ?r = Some 50" by (simp add: clamp_def)
  with g p show ?thesis by simp
qed


text \<open>
  Claim C7, as stated: with strike, bid and ask present and a positive spot, the required move
  is ((strike + 2 * premium) / spot - 1) * 100. The premium exists only for a positive ask
  (line 312): with bid = ask = 0 the required move is absent, not 5.
\<close>

theorem required_move_none_counterexample:
  "map_sum id (\<lambda>r. (o_strike r, o_bid r, o_ask r, o_required_move_for_2x_pct r))
     (get_option_metrics ex_strptime 0 (Inr [''2027-12-17''])
        (const_chain (ex_contract (Some 0) (Some 0) (Some 0.4))) 100 9)
   = Inr (Some 105, Some 0, Some 0, None)"
  by (simp add: get_option_metrics_def valid_expiries_def ex_strptime_def
      select_contract_def atm_at_def const_chain_def pick_atm_call_def ex_contract_def
      quote_of_def required_move_of_def premium_of_def Let_def)

text \<open>
  Claim C7, amended. For every chosen contract with strike, bid and ask present, ask > 0 and
  spot > 0, the required move is ((strike + 2 * premium) / spot - 1) * 100 with the premium
  (bid + ask) / 2. The witness is the scenario of the claim: spot 100, strike 105, bid 8,
  ask 9 give the premium 8.5 and the required move 22.
\<close>

theorem required_move_formula:
  assumes "get_option_metrics sp td options chain spot mm = Inr r"
    and "o_strike r = Some k" and "o_bid r = Some b" and "o_ask r = Some a"
    and "a > 0" and "spot > 0"
  shows "o_required_move_for_2x_pct r = Some (((k + 2 * ((b + a) / 2)) / spot - 1) * 100)"
proof -
  obtain opts where opts: "options = Inr opts"
    using assms(1) by (cases options) (auto simp: get_option_metrics_def)
  have "o_required_move_for_2x_pct r =
      required_move_of (o_strike r) (premium_of (o_bid r) (o_ask r)) spot"
    using assms(1) unfolding opts get_option_metrics_Inr
    by (auto simp: Let_def opt_fail_def quote_of_def required_move_of_def premium_of_def
        split: if_splits option.splits)
  then show ?thesis
    using assms(2-6) by (simp add: required_move_of_def premium_of_def)
qed

theorem required_move_formula_witness:
  "get_option_metrics ex_strptime 0 (Inr [''2027-12-17''])
        (const_chain (ex_contract (Some 8) (Some 9) (Some 0.4))) 100 9
   = Inr \<lparr>o_layer3_pass = True, o_reason = OK, o_expiry = Some ''2027-12-17'',
          o_strike = Some 105, o_bid = Some 8, o_ask = Some 9,
          o_spread_pct = Some (200 / 17), o_iv_rank = None,
          o_required_move_for_2x_pct = Some 22\<rparr>
   \<and> (9 :: real) > 0 \<and> (100 :: real) > 0 \<and> premium_of (Some 8) (Some 9) = Some 8.5"
proof -
  let ?g = "get_option_metrics ex_strptime 0 (Inr [''2027-12-17''])
        (const_chain (ex_contract (Some 8) (Some 9) (Some 0.4))) 100 9"
  obtain r where r: "?g = Inr r"
    by (simp add: get_option_metrics_def valid_expiries_def ex_strptime_def
      select_contract_def atm_at_def const_chain_def pick_atm_call_def)
  have f: "o_layer3_pass r" "o_reason r = OK" "o_expiry r = Some ''2027-12-17''"
      "o_strike r = Some 105" "o_bid r = Some 8" "o_ask r = Some 9"
      "o_spread_pct r = Some (200 / 17)" "o_iv_rank r = None"
    using r
    by (auto simp: get_option_metrics_def valid_expiries_def ex_strptime_def
      select_contract_def atm_at_def const_chain_def pick_atm_call_def ex_contract_def
      quote_of_def spread_pct_of_def iv_rank_of_def Let_def)
  have "o_required_move_for_2x_pct r = Some 22"
    using required_move_formula [OF r f(4) f(5) f(6)] by simp
  with f have "r = \<lparr>o_layer3_pass = True, o_reason = OK, o_expiry = Some ''2027-12-17'',
          o_strike = Some 105, o_bid = Some 8, o_ask = Some 9,
          o_spread_pct = Some (200 / 17), o_iv_rank = None,
          o_required_move_for_2x_pct = Some 22\<rparr>"
    by (cases r) simp
  with r show ?thesis by (simp add: premium_of_def)
qed

subsection \<open>The Funnel Evaluator\<close>

lemma failed_fields [simp]:
  "score (failed tkr e) = 0" "\<not> layer1_pass (failed tkr e)" "\<not> layer2_pass (failed tkr e)"
  "\<not> layer3_pass (failed tkr e)" "reason (failed tkr e) = ProcessingFailed e"
  "sanity_flags (failed tkr e) = None" "peg (failed tkr e) = None"
  by (simp_all add: failed_def)

lemma funnel_result_fields [simp]:
  "score (funnel_result tkr ev tech sc l1 l2 l3 why opt) = sc"
  "layer1_pass (funnel_result tkr ev tech sc l1 l2 l3 why opt) = l1"
  "layer2_pass (funnel_result tkr ev tech sc l1 l2 l3 why opt) = l2"
  "layer3_pass (funnel_result tkr ev tech sc l1 l2 l3 why opt) = l3"
  "reason (funnel_result tkr ev tech sc l1 l2 l3 why opt) = why"
  "current_price (funnel_result tkr ev tech sc l1 l2 l3 why opt) = e_price ev"
  "revenue_growth (funnel_result tkr ev tech sc l1 l2 l3 why opt) = e_rev_growth ev"
  "peg (funnel_result tkr ev tech sc l1 l2 l3 why opt) = e_peg ev"
  "upside (funnel_result tkr ev tech sc l1 l2 l3 why opt) = e_upside ev"
  "rsi14 (funnel_result tkr ev tech sc l1 l2 l3 why opt) = t_rsi14 tech"
  "drawdown_52w_pct (funnel_result tkr ev tech sc l1 l2 l3 why opt) = t_drawdown_52w_pct tech"
  "vol_ratio (funnel_result tkr ev tech sc l1 l2 l3 why opt) = t_vol_ratio tech"
  "vol_spike (funnel_result tkr ev tech sc l1 l2 l3 why opt) = t_vol_spike tech"
  "sanity_flags (funnel_result tkr ev tech sc l1 l2 l3 why opt) =
     (if e_sanity_flags ev = [] then None else Some (e_sanity_flags ev))"
  by (simp_all add: funnel_result_def)

lemma funnel_cases:
  fixes lb tk tkr rvs nfo hist
  defines "tech \<equiv> get_technical_metrics (rsi_last lb) hist"
  defines "ev \<equiv> collect_evidence nfo tech (tk_quarterly_earnings tk)"
  defines "opts \<equiv> get_option_metrics (strptime lb) (today lb) (tk_options tk) (tk_option_chain tk)
                   (py_or (e_price ev) 0.0) LONG_DTE_MONTHS"
  obtains
    (fail1) "\<not> layer1 ev"
      "funnel lb tk tkr rvs nfo hist =
         funnel_result tkr ev tech 0 False False False FailedLayer1 (opt_fail OK)"
  | (fail2) "layer1 ev" "\<not> layer2 rvs tech"
      "funnel lb tk tkr rvs nfo hist =
         funnel_result tkr ev tech 0 True False False FailedLayer2 (opt_fail OK)"
  | (raised) e where "layer1 ev" "layer2 rvs tech" "opts = Inl e"
      "funnel lb tk tkr rvs nfo hist = failed tkr e"
  | (fail3) opt where "layer1 ev" "layer2 rvs tech" "opts = Inr opt" "\<not> o_layer3_pass opt"
      "funnel lb tk tkr rvs nfo hist =
         funnel_result tkr ev tech 0 True True False (FailedLayer3 (o_reason opt)) (opt_fail OK)"
  | (pass) opt where "layer1 ev" "layer2 rvs tech" "opts = Inr opt" "o_layer3_pass opt"
      "funnel lb tk tkr rvs nfo hist =
         funnel_result tkr ev tech (score_stock (metrics_of ev tech opt)) True True True PassedAll opt"
proof -
  consider (a) "\<not> layer1 ev" | (b) "layer1 ev" "\<not> layer2 rvs tech"
    | (c) e where "layer1 ev" "layer2 rvs tech" "opts = Inl e"
    | (d) opt where "layer1 ev" "layer2 rvs tech" "opts = Inr opt" "\<not> o_layer3_pass opt"
    | (e) opt where "layer1 ev" "layer2 rvs tech" "opts = Inr opt" "o_layer3_pass opt"
    by (cases opts) auto
  then show thesis
  proof cases
    case a
    then show ?thesis using fail1 by (simp add: funnel_def Let_def tech_def ev_def)
  next
    case b
    then show ?thesis using fail2 by (simp add: funnel_def Let_def tech_def ev_def)
  next
    case c
    then show ?thesis using raised [of e]
      by (simp add: funnel_def Let_def tech_def ev_def opts_def)
  next
    case d
    then show ?thesis using fail3 [of opt]
      by (simp add: funnel_def Let_def tech_def ev_def opts_def)
  next
    case e
    then show ?thesis using pass [of opt]
      by (simp add: funnel_def Let_def tech_def ev_def opts_def)
  qed
qed

lemma funnel_score:
  "0 \<le> score (funnel lb tk tkr rvs nfo hist) \<and> score (funnel lb tk tkr rvs nfo hist) \<le> 100
   \<and> (\<not> (layer1_pass (funnel lb tk tkr rvs nfo hist) \<and> layer2_pass (funnel lb tk tkr rvs nfo hist)
           \<and> layer3_pass (funnel lb tk tkr rvs nfo hist))
        \<longrightarrow> score (funnel lb tk tkr rvs nfo hist) = 0)"
  by (rule funnel_cases [where lb = lb and tk = tk and tkr = tkr and rvs = rvs and nfo = nfo
        and hist = hist])
     (simp_all add: score_stock_bounds)

lemma analyze_ticker_score:
  "0 \<le> score (analyze_ticker lb tk t rvs) \<and> score (analyze_ticker lb tk t rvs) \<le> 100
   \<and> (\<not> (layer1_pass (analyze_ticker lb tk t rvs) \<and> layer2_pass (analyze_ticker lb tk t rvs)
           \<and> layer3_pass (analyze_ticker lb tk t rvs))
        \<longrightarrow> score (analyze_ticker lb tk t rvs) = 0)"
proof (cases "tk_info tk")
  case (Inl e)
  then show ?thesis by (simp add: analyze_ticker_def)
next
  case (Inr nfo)
  show ?thesis
  proof (cases "tk_history tk")
    case (Inl e)
    with Inr show ?thesis by (simp add: analyze_ticker_def)
  next
    case (Inr hist)
    with \<open>tk_info tk = Inr nfo\<close> show ?thesis
      using funnel_score [of lb tk "upper_strip t" rvs nfo hist]
      by (simp add: analyze_ticker_def Let_def)
  qed
qed


lemma analyze_ticker_info_raises:
  "tk_info tk = Inl e \<Longrightarrow> analyze_ticker lb tk t rvs = failed (upper_strip t) e"
  by (simp add: analyze_ticker_def)

lemma analyze_ticker_history_raises:
  "tk_info tk = Inr nfo \<Longrightarrow> tk_history tk = Inl e \<Longrightarrow>
     analyze_ticker lb tk t rvs = failed (upper_strip t) e"
  by (simp add: analyze_ticker_def)

lemma analyze_ticker_funnel:
  "tk_info tk = Inr nfo \<Longrightarrow> tk_history tk = Inr hist \<Longrightarrow>
     analyze_ticker lb tk t rvs = funnel lb tk (upper_strip t) rvs nfo hist"
  by (simp add: analyze_ticker_def)

lemma collect_evidence_fields:
  "e_price (collect_evidence nfo tech qe) = t_price tech"
  "e_rev_growth (collect_evidence nfo tech qe) = snd (check_revenue (safe_float (revenueGrowth nfo)))"
  "e_peg (collect_evidence nfo tech qe) =
     (case safe_float (pegRatio nfo) of
        None \<Rightarrow> safe_float (trailingPegRatio nfo) | Some p \<Rightarrow> Some p)"
  "e_sanity_flags (collect_evidence nfo tech qe) =
     check_shares (safe_float (sharesOutstanding nfo)) (safe_float (floatShares nfo))
     @ fst (check_revenue (safe_float (revenueGrowth nfo)))
     @ fst (check_eps (safe_float (earningsGrowth nfo)))
     @ fst (check_eps_forward
              (forward_growth (safe_float (trailingEps nfo)) (safe_float (forwardEps nfo))))
     @ fst (check_low_base (safe_float (trailingEps nfo)) (safe_float (forwardEps nfo))
              (snd (check_eps_forward
                 (forward_growth (safe_float (trailingEps nfo)) (safe_float (forwardEps nfo))))))
     @ check_peg (safe_float (pegRatio nfo))
     @ check_volatility qe"
  by (simp_all add: collect_evidence_def Let_def split_beta)

lemma upside_needs_price:
  "t_price tech = None \<Longrightarrow> e_upside (collect_evidence nfo tech qe) = None"
  by (simp add: collect_evidence_def Let_def split_beta split: option.splits)

lemma layer1_needs_revenue: "e_rev_growth ev = None \<Longrightarrow> \<not> layer1 ev"
  by (simp add: layer1_def exceeds_def)

lemma layer1_needs_upside: "e_upside ev = None \<Longrightarrow> \<not> layer1 ev"
  by (simp add: layer1_def exceeds_def)

lemma funnel_fail1:
  "\<not> layer1 (collect_evidence nfo (get_technical_metrics (rsi_last lb) hist)
               (tk_quarterly_earnings tk)) \<Longrightarrow>
   funnel lb tk tkr rvs nfo hist =
     funnel_result tkr
       (collect_evidence nfo (get_technical_metrics (rsi_last lb) hist) (tk_quarterly_earnings tk))
       (get_technical_metrics (rsi_last lb) hist) 0 False False False FailedLayer1 (opt_fail OK)"
  by (simp add: funnel_def Let_def)

text \<open>The worked example: \<^verbatim>\<open>AAPL\<close> passes every layer and scores 41.74; with the primary PEG
  missing and a trailing PEG of 0.1 it scores 55.65.\<close>

lemma ex_tech:
  "get_technical_metrics (rsi_last ex_lib) ex_hist =
     \<lparr>t_price = Some 100, t_rsi14 = Some 45, t_drawdown_52w_pct = Some 0,
      t_vol_ratio = Some 1, t_vol_spike = Some False\<rparr>"
  by code_simp

lemmas ex_checks =
  collect_evidence_def Let_def ex_info_def check_shares_def check_revenue_def check_eps_def
  check_eps_forward_def check_low_base_def check_peg_def check_volatility_def
  forward_growth_def REV_GROWTH_CAP_def EPS_GROWTH_CAP_def

lemma ex_ev:
  "collect_evidence ex_info
     \<lparr>t_price = Some 100, t_rsi14 = Some 45, t_drawdown_52w_pct = Some 0,
      t_vol_ratio = Some 1, t_vol_spike = Some False\<rparr> (Inl ''unavailable'')
   = \<lparr>e_price = Some 100, e_rev_growth = Some (9 / 20), e_eps_growth = None,
      e_eps_growth_forward = Some (1 / 4), e_trailing_eps = Some 4, e_forward_eps = Some 5,
      e_peg = Some (6 / 5), e_market_cap = Some 10000000000, e_upside = Some (9 / 50),
      e_sanity_flags = []\<rparr>"
  by (simp add: ex_checks)

lemma ex_ev_fallback:
  "collect_evidence (ex_info\<lparr>pegRatio := PyNone, trailingPegRatio := PyNum (1 / 10)\<rparr>)
     \<lparr>t_price = Some 100, t_rsi14 = Some 45, t_drawdown_52w_pct = Some 0,
      t_vol_ratio = Some 1, t_vol_spike = Some False\<rparr> (Inl ''unavailable'')
   = \<lparr>e_price = Some 100, e_rev_growth = Some (9 / 20), e_eps_growth = None,
      e_eps_growth_forward = Some (1 / 4), e_trailing_eps = Some 4, e_forward_eps = Some 5,
      e_peg = Some (1 / 10), e_market_cap = Some 10000000000, e_upside = Some (9 / 50),
      e_sanity_flags = []\<rparr>"
  by (simp add: ex_checks)

lemma ex_opt:
  "get_option_metrics ex_strptime 0 (Inr [''2027-12-17''])
     (const_chain (ex_contract (Some 8) (Some 9) (Some (1 / 2)))) 100 9
   = Inr \<lparr>o_layer3_pass = True, o_reason = OK, o_expiry = Some ''2027-12-17'',
          o_strike = Some 105, o_bid = Some 8, o_ask = Some 9,
          o_spread_pct = Some (200 / 17), o_iv_rank = None,
          o_required_move_for_2x_pct = Some 22\<rparr>"
  by (simp add: get_option_metrics_def valid_expiries_def ex_strptime_def
      select_contract_def atm_at_def const_chain_def pick_atm_call_def ex_contract_def
      quote_of_def spread_pct_of_def iv_rank_of_def required_move_of_def premium_of_def Let_def)

lemma log_ten_billion: "log 10 10000000000 = 10"
proof -
  have "(10000000000 :: real) = 10 powr 10" by simp
  then show ?thesis using log_powr_cancel [of 10 10] by simp
qed

lemmas ex_scoring =
  score_stock_def Let_def s_rev_def s_eps_def s_peg_def s_mcap_def s_val_def s_rsi_def
  s_dd_def s_vol_def s_cat_def s_spread_def s_move_def s_iv_def clamp_def py_or_def
  if_none_def mean_def log_ten_billion round2_def round_half_even_def

lemma ex_score:
  "score_stock
     \<lparr>m_revenue_growth = Some (9 / 20), m_eps_growth = Some (1 / 4), m_peg = Some (6 / 5),
      m_market_cap = Some 10000000000, m_upside = Some (9 / 50), m_rsi14 = Some 45,
      m_drawdown_52w_pct = Some 0, m_vol_ratio = Some 1, m_call_spread_pct = Some (200 / 17),
      m_iv_rank = None, m_required_move_for_2x_pct = Some 22\<rparr> * 50 = 2087"
  by (simp add: ex_scoring)

lemma ex_score_fallback:
  "score_stock
     \<lparr>m_revenue_growth = Some (9 / 20), m_eps_growth = Some (1 / 4), m_peg = Some (1 / 10),
      m_market_cap = Some 10000000000, m_upside = Some (9 / 50), m_rsi14 = Some 45,
      m_drawdown_52w_pct = Some 0, m_vol_ratio = Some 1, m_call_spread_pct = Some (200 / 17),
      m_iv_rank = None, m_required_move_for_2x_pct = Some 22\<rparr> * 20 = 1113"
  by (simp add: ex_scoring)

lemma ex_lib_fields: "strptime ex_lib = ex_strptime" "today ex_lib = 0"
  by (simp_all add: ex_lib_def)

lemmas ex_funnel =
  analyze_ticker_def funnel_def Let_def ex_tk_def ex_tech ex_lib_fields
  layer1_def layer2_def exceeds_def below_def thresholds py_or_def ex_opt
  metrics_of_def best_eps_growth_def

lemma ex_full_pass:
  "score (analyze_ticker ex_lib (ex_tk (Inr ex_info) (Inr ex_hist)) ''AAPL'' False) = 2087 / 50
   \<and> layer1_pass (analyze_ticker ex_lib (ex_tk (Inr ex_info) (Inr ex_hist)) ''AAPL'' False)
   \<and> layer2_pass (analyze_ticker ex_lib (ex_tk (Inr ex_info) (Inr ex_hist)) ''AAPL'' False)
   \<and> layer3_pass (analyze_ticker ex_lib (ex_tk (Inr ex_info) (Inr ex_hist)) ''AAPL'' False)
   \<and> reason (analyze_ticker ex_lib (ex_tk (Inr ex_info) (Inr ex_hist)) ''AAPL'' False)
       = PassedAll"
  by (simp add: ex_funnel ex_ev ex_score)

lemma ex_full_pass_fallback:
  "score (analyze_ticker ex_lib
       (ex_tk (Inr (ex_info\<lparr>pegRatio := PyNone, trailingPegRatio := PyNum (1 / 10)\<rparr>))
          (Inr ex_hist)) ''AAPL'' False) = 1113 / 20
   \<and> layer1_pass (analyze_ticker ex_lib
       (ex_tk (Inr (ex_info\<lparr>pegRatio := PyNone, trailingPegRatio := PyNum (1 / 10)\<rparr>))
          (Inr ex_hist)) ''AAPL'' False)
   \<and> reason (analyze_ticker ex_lib
       (ex_tk (Inr (ex_info\<lparr>pegRatio := PyNone, trailingPegRatio := PyNum (1 / 10)\<rparr>))
          (Inr ex_hist)) ''AAPL'' False) = PassedAll
   \<and> sanity_flags (analyze_ticker ex_lib
       (ex_tk (Inr (ex_info\<lparr>pegRatio := PyNone, trailingPegRatio := PyNum (1 / 10)\<rparr>))
          (Inr ex_hist)) ''AAPL'' False) = None"
  by (simp add: ex_funnel ex_ev_fallback ex_score_fallback)

text \<open>
  Claim C1. Every result of a scan has a score between 0 and 100, and the score is exactly 0
  whenever one of its three layer flags is false.
\<close>

theorem score_invariant:
  assumes "r \<in> set (scan lb yf rvs universe)"
  shows "0 \<le> score r \<and> score r \<le> 100
     \<and> (\<not> (layer1_pass r \<and> layer2_pass r \<and> layer3_pass r) \<longrightarrow> score r = 0)"
proof -
  from assms obtain t where "r = analyze_ticker lb (yf t) t rvs"
    by (auto simp: scan_def)
  then show ?thesis using analyze_ticker_score [of lb "yf t" t rvs] by simp
qed

theorem score_invariant_witness:
  "analyze_ticker ex_lib (ex_yf ''MSFT'') ''MSFT'' False
     \<in> set (scan ex_lib ex_yf False [''AAPL'', ''MSFT''])
   \<and> \<not> layer1_pass (analyze_ticker ex_lib (ex_yf ''MSFT'') ''MSFT'' False)
   \<and> score (analyze_ticker ex_lib (ex_yf ''MSFT'') ''MSFT'' False) = 0
   \<and> analyze_ticker ex_lib (ex_yf ''AAPL'') ''AAPL'' False
     \<in> set (scan ex_lib ex_yf False [''AAPL'', ''MSFT''])
   \<and> layer1_pass (analyze_ticker ex_lib (ex_yf ''AAPL'') ''AAPL'' False)
   \<and> layer2_pass (analyze_ticker ex_lib (ex_yf ''AAPL'') ''AAPL'' False)
   \<and> layer3_pass (analyze_ticker ex_lib (ex_yf ''AAPL'') ''AAPL'' False)
   \<and> score (analyze_ticker ex_lib (ex_yf ''AAPL'') ''AAPL'' False) = 2087 / 50
   \<and> 0 \<le> score (analyze_ticker ex_lib (ex_yf ''AAPL'') ''AAPL'' False)
   \<and> score (analyze_ticker ex_lib (ex_yf ''AAPL'') ''AAPL'' False) \<le> 100"
proof -
  let ?r = "analyze_ticker ex_lib (ex_yf ''MSFT'') ''MSFT'' False"
  let ?a = "analyze_ticker ex_lib (ex_yf ''AAPL'') ''AAPL'' False"
  have m: "?r \<in> set (scan ex_lib ex_yf False [''AAPL'', ''MSFT''])"
    and n: "?a \<in> set (scan ex_lib ex_yf False [''AAPL'', ''MSFT''])"
    by (simp_all add: scan_def)
  have "tk_info (ex_yf ''MSFT'') = Inl ''HTTP 404''" by (simp add: ex_yf_def ex_tk_def)
  then have f: "\<not> layer1_pass ?r" by (simp add: analyze_ticker_info_raises)
  have "ex_yf ''AAPL'' = ex_tk (Inr ex_info) (Inr ex_hist)" by (simp add: ex_yf_def)
  with ex_full_pass
  have p: "layer1_pass ?a" "layer2_pass ?a" "layer3_pass ?a" "score ?a = 2087 / 50"
    by simp_all
  from score_invariant [OF m] f have "score ?r = 0" by blast
  moreover from score_invariant [OF n] have "0 \<le> score ?a" "score ?a \<le> 100" by blast+
  ultimately show ?thesis using m n f p by blast
qed

text \<open>
  Claim C2, as stated: a ticker with an empty price history fails at Layer 2 with the reason
  of the technical layer. The analyst upside needs the price, so with an empty history the
  upside clause of Layer 1 is false and the funnel stops there: for a ticker whose
  fundamentals are otherwise good, the reason is that of Layer 1.
\<close>

theorem empty_history_fails_layer1_counterexample:
  "tk_history (ex_tk (Inr ex_info) (Inr [])) = Inr []
   \<and> reason (analyze_ticker ex_lib (ex_tk (Inr ex_info) (Inr [])) ''AAPL'' False) = FailedLayer1
   \<and> reason (analyze_ticker ex_lib (ex_tk (Inr ex_info) (Inr [])) ''AAPL'' False) \<noteq> FailedLayer2"
proof -
  have "\<not> layer1 (collect_evidence ex_info (get_technical_metrics (rsi_last ex_lib) [])
               (tk_quarterly_earnings (ex_tk (Inr ex_info) (Inr []))))"
    by (rule layer1_needs_upside, rule upside_needs_price)
       (simp add: get_technical_metrics_def tech_absent_def)
  then show ?thesis
    by (simp add: analyze_ticker_def ex_tk_def funnel_fail1)
qed

text \<open>
  Claim C2, amended. For every ticker whose info is retrieved and whose price history is
  empty, all technical metrics (price, RSI, drawdown, volume ratio, volume spike) are absent,
  the upside is absent with them, and the result fails at Layer 1 with the reason of the
  fundamentals layer; the flags of Layers 2 and 3 are false and the score is 0.
\<close>

theorem empty_history_fails_layer1:
  assumes "tk_info tk = Inr nfo" and "tk_history tk = Inr []"
  shows "current_price (analyze_ticker lb tk t rvs) = None
     \<and> rsi14 (analyze_ticker lb tk t rvs) = None
     \<and> drawdown_52w_pct (analyze_ticker lb tk t rvs) = None
     \<and> vol_ratio (analyze_ticker lb tk t rvs) = None
     \<and> vol_spike (analyze_ticker lb tk t rvs) = None
     \<and> upside (analyze_ticker lb tk t rvs) = None
     \<and> \<not> layer1_pass (analyze_ticker lb tk t rvs)
     \<and> \<not> layer2_pass (analyze_ticker lb tk t rvs)
     \<and> \<not> layer3_pass (analyze_ticker lb tk t rvs)
     \<and> score (analyze_ticker lb tk t rvs) = 0
     \<and> reason (analyze_ticker lb tk t rvs) = FailedLayer1"
proof -
  let ?tech = "get_technical_metrics (rsi_last lb) []"
  let ?ev = "collect_evidence nfo ?tech (tk_quarterly_earnings tk)"
  have tech: "?tech = tech_absent" by (simp add: get_technical_metrics_def)
  have price: "t_price ?tech = None" unfolding tech by (simp add: tech_absent_def)
  have up: "e_upside ?ev = None" using price by (rule upside_needs_price)
  then have "\<not> layer1 ?ev" by (rule layer1_needs_upside)
  then have r: "analyze_ticker lb tk t rvs =
      funnel_result (upper_strip t) ?ev ?tech 0 False False False FailedLayer1 (opt_fail OK)"
    using assms by (simp add: analyze_ticker_funnel funnel_fail1)
  show ?thesis
    unfolding r using up price
    by (simp add: collect_evidence_fields) (simp add: tech tech_absent_def)
qed

theorem empty_history_fails_layer1_witness:
  "tk_info (ex_tk (Inr ex_info) (Inr [])) = Inr ex_info
   \<and> tk_history (ex_tk (Inr ex_info) (Inr [])) = Inr []
   \<and> upside (analyze_ticker ex_lib (ex_tk (Inr ex_info) (Inr [])) ''AAPL'' True) = None
   \<and> \<not> layer1_pass (analyze_ticker ex_lib (ex_tk (Inr ex_info) (Inr [])) ''AAPL'' True)
   \<and> score (analyze_ticker ex_lib (ex_tk (Inr ex_info) (Inr [])) ''AAPL'' True) = 0"
proof -
  have i: "tk_info (ex_tk (Inr ex_info) (Inr [])) = Inr ex_info"
    and h: "tk_history (ex_tk (Inr ex_info) (Inr [])) = Inr []"
    by (simp_all add: ex_tk_def)
  from empty_history_fails_layer1 [OF i h, of ex_lib "''AAPL''" True] i h
  show ?thesis by blast
qed


lemma check_revenue_above_cap:
  "g > REV_GROWTH_CAP \<Longrightarrow> check_revenue (Some g) = ([RevenueGrowthHigh g], None)"
  by (simp add: check_revenue_def)

text \<open>
  Claim C5. For every ticker whose reported revenue growth exceeds 200%, Layer 1 fails
  whatever the other fields are; and once the history is retrieved, so that the Sanity
  Checker runs, the result carries the anomaly flag of the revenue growth, its revenue
  growth is nulled, and the reason is that of Layer 1.
\<close>

theorem revenue_growth_cap:
  assumes "tk_info tk = Inr nfo" and "safe_float (revenueGrowth nfo) = Some g" and "g > 2"
  shows "\<not> layer1_pass (analyze_ticker lb tk t rvs)
     \<and> score (analyze_ticker lb tk t rvs) = 0
     \<and> (\<forall>hist. tk_history tk = Inr hist \<longrightarrow>
           revenue_growth (analyze_ticker lb tk t rvs) = None
           \<and> reason (analyze_ticker lb tk t rvs) = FailedLayer1
           \<and> (\<exists>fs. sanity_flags (analyze_ticker lb tk t rvs) = Some fs
                    \<and> RevenueGrowthHigh g \<in> set fs))"
proof (cases "tk_history tk")
  case (Inl e)
  with assms(1) show ?thesis by (simp add: analyze_ticker_history_raises)
next
  case (Inr hist)
  let ?tech = "get_technical_metrics (rsi_last lb) hist"
  let ?ev = "collect_evidence nfo ?tech (tk_quarterly_earnings tk)"
  have cr: "check_revenue (safe_float (revenueGrowth nfo)) = ([RevenueGrowthHigh g], None)"
    using assms(2,3) by (simp add: check_revenue_above_cap REV_GROWTH_CAP_def)
  have rev: "e_rev_growth ?ev = None"
    by (simp add: collect_evidence_fields cr)
  have flag: "RevenueGrowthHigh g \<in> set (e_sanity_flags ?ev)"
    by (simp add: collect_evidence_fields(4) cr)
  then have ne: "e_sanity_flags ?ev \<noteq> []" by auto
  have "\<not> layer1 ?ev" using rev by (rule layer1_needs_revenue)
  then have r: "analyze_ticker lb tk t rvs =
      funnel_result (upper_strip t) ?ev ?tech 0 False False False FailedLayer1 (opt_fail OK)"
    using assms(1) Inr by (simp add: analyze_ticker_funnel funnel_fail1)
  show ?thesis unfolding r using rev flag ne Inr by simp
qed

theorem revenue_growth_cap_witness:
  "safe_float (revenueGrowth (ex_info\<lparr>revenueGrowth := PyNum 2.5\<rparr>)) = Some 2.5
   \<and> (2.5 :: real) > 2
   \<and> revenue_growth (analyze_ticker ex_lib
         (ex_tk (Inr (ex_info\<lparr>revenueGrowth := PyNum 2.5\<rparr>)) (Inr [])) ''NVDA'' False) = None
   \<and> reason (analyze_ticker ex_lib
         (ex_tk (Inr (ex_info\<lparr>revenueGrowth := PyNum 2.5\<rparr>)) (Inr [])) ''NVDA'' False)
       = FailedLayer1
   \<and> \<not> layer1_pass (analyze_ticker ex_lib
         (ex_tk (Inr (ex_info\<lparr>revenueGrowth := PyNum 2.5\<rparr>)) (Inr [])) ''NVDA'' False)"
proof -
  let ?nfo = "ex_info\<lparr>revenueGrowth := PyNum 2.5\<rparr>"
  let ?tk = "ex_tk (Inr ?nfo) (Inr [])"
  have i: "tk_info ?tk = Inr ?nfo" and h: "tk_history ?tk = Inr []"
    by (simp_all add: ex_tk_def)
  have g: "safe_float (revenueGrowth ?nfo) = Some 2.5" by simp
  have c: "(2.5 :: real) > 2" by simp
  from revenue_growth_cap [OF i g c, of ex_lib "''NVDA''" False] h g c
  show ?thesis by blast
qed

lemma get_option_metrics_Inl:
  "get_option_metrics sp td options chain spot mm = Inl e \<longleftrightarrow> options = Inl e"
proof (cases options)
  case (Inl x)
  then show ?thesis by (simp add: get_option_metrics_def)
next
  case (Inr opts)
  then show ?thesis by (simp add: get_option_metrics_Inr)
qed

lemma get_option_metrics_raises:
  "get_option_metrics sp td (Inl e) chain spot mm = Inl e"
  by (simp add: get_option_metrics_def)

lemma funnel_failed_iff:
  "reason (funnel lb tk tkr rvs nfo hist) = ProcessingFailed e \<longleftrightarrow>
     layer1 (collect_evidence nfo (get_technical_metrics (rsi_last lb) hist)
               (tk_quarterly_earnings tk))
     \<and> layer2 rvs (get_technical_metrics (rsi_last lb) hist) \<and> tk_options tk = Inl e"
  by (rule funnel_cases [where lb = lb and tk = tk and tkr = tkr and rvs = rvs and nfo = nfo
        and hist = hist])
     (auto simp: get_option_metrics_Inl get_option_metrics_raises)

lemma funnel_failed:
  "reason (funnel lb tk tkr rvs nfo hist) = ProcessingFailed e \<Longrightarrow>
     funnel lb tk tkr rvs nfo hist = failed tkr e"
  by (rule funnel_cases [where lb = lb and tk = tk and tkr = tkr and rvs = rvs and nfo = nfo
        and hist = hist])
     simp_all

lemma analyze_ticker_failed_iff:
  "reason (analyze_ticker lb tk t rvs) = ProcessingFailed e \<longleftrightarrow> retrieval_raises lb tk rvs e"
proof (cases "tk_info tk")
  case (Inl x)
  then show ?thesis by (auto simp: analyze_ticker_info_raises retrieval_raises_def)
next
  case (Inr nfo)
  show ?thesis
  proof (cases "tk_history tk")
    case (Inl x)
    with Inr show ?thesis
      by (auto simp: analyze_ticker_history_raises retrieval_raises_def)
  next
    case (Inr hist)
    with \<open>tk_info tk = Inr nfo\<close> show ?thesis
      by (simp add: analyze_ticker_funnel retrieval_raises_def funnel_failed_iff Let_def)
  qed
qed

lemma analyze_ticker_failed:
  assumes "reason (analyze_ticker lb tk t rvs) = ProcessingFailed e"
  shows "analyze_ticker lb tk t rvs = failed (upper_strip t) e"
proof (cases "tk_info tk")
  case (Inl x)
  with assms show ?thesis by (simp add: analyze_ticker_info_raises)
next
  case (Inr nfo)
  show ?thesis
  proof (cases "tk_history tk")
    case (Inl x)
    with Inr assms show ?thesis by (simp add: analyze_ticker_history_raises)
  next
    case (Inr hist)
    with \<open>tk_info tk = Inr nfo\<close> assms show ?thesis
      by (simp add: analyze_ticker_funnel funnel_failed)
  qed
qed

lemma ex_opt_raising:
  "get_option_metrics ex_strptime 0 (Inr [''2027-12-17'']) (\<lambda>k expiry. Inl ''timeout'') 100 9
   = Inr (opt_fail NoAtmCall)"
  by (simp add: get_option_metrics_def valid_expiries_def ex_strptime_def
      select_contract_def atm_at_def)

lemma scan_other_tickers:
  assumes "\<forall>u \<in> set universe. yf' u = yf u"
  shows "scan lb yf' rvs universe = scan lb yf rvs universe"
  using assms by (simp add: scan_def)

lemma ex_chain_raising:
  "analyze_ticker ex_lib
     ((ex_tk (Inr ex_info) (Inr ex_hist))\<lparr>tk_option_chain := (\<lambda>k expiry. Inl ''timeout'')\<rparr>)
     ''AAPL'' False
   = funnel_result (upper_strip ''AAPL'')
       (collect_evidence ex_info (get_technical_metrics (rsi_last ex_lib) ex_hist)
          (Inl ''unavailable''))
       (get_technical_metrics (rsi_last ex_lib) ex_hist)
       0 True True False (FailedLayer3 NoAtmCall) (opt_fail OK)"
proof -
  let ?tk = "(ex_tk (Inr ex_info) (Inr ex_hist))\<lparr>tk_option_chain := (\<lambda>k expiry. Inl ''timeout'')\<rparr>"
  let ?tech = "get_technical_metrics (rsi_last ex_lib) ex_hist"
  let ?ev = "collect_evidence ex_info ?tech (Inl ''unavailable'')"
  have f: "tk_info ?tk = Inr ex_info" "tk_history ?tk = Inr ex_hist"
    "tk_quarterly_earnings ?tk = Inl ''unavailable''" "tk_options ?tk = Inr [''2027-12-17'']"
    "tk_option_chain ?tk = (\<lambda>k expiry. Inl ''timeout'')"
    by (simp_all add: ex_tk_def)
  have l1: "layer1 ?ev"
    unfolding ex_tech ex_ev by (simp add: layer1_def exceeds_def below_def thresholds)
  have l2: "layer2 False ?tech"
    unfolding ex_tech by (simp add: layer2_def exceeds_def below_def thresholds)
  have price: "py_or (e_price ?ev) 0.0 = 100"
    unfolding ex_tech ex_ev by (simp add: py_or_def)
  have opt: "get_option_metrics (strptime ex_lib) (today ex_lib) (tk_options ?tk)
      (tk_option_chain ?tk) (py_or (e_price ?ev) 0.0) LONG_DTE_MONTHS = Inr (opt_fail NoAtmCall)"
    unfolding f price ex_lib_fields LONG_DTE_MONTHS_def by (rule ex_opt_raising)
  have "funnel ex_lib ?tk (upper_strip ''AAPL'') False ex_info ex_hist
      = funnel_result (upper_strip ''AAPL'') ?ev ?tech 0 True True False
          (FailedLayer3 NoAtmCall) (opt_fail OK)"
    unfolding funnel_def Let_def f(3) opt using l1 l2 by (simp add: opt_fail_def)
  then show ?thesis using f(1,2) by (simp add: analyze_ticker_funnel)
qed

text \<open>
  Claim C8, as stated: every ticker whose raw-data retrieval raises gets the failure record.
  Two retrievals raise inside handlers of their own (lines 473-483, and 264-277 with
  281-290), which swallow the exception. The example ticker's read of the quarterly earnings
  raises, and it passes every layer with the score 41.74; when each of its chain lookups
  raises as well, it fails at Layer 3 with Layers 1 and 2 passed.
\<close>

theorem swallowed_exception_counterexample:
  "tk_quarterly_earnings (ex_tk (Inr ex_info) (Inr ex_hist)) = Inl ''unavailable''
   \<and> reason (analyze_ticker ex_lib (ex_tk (Inr ex_info) (Inr ex_hist)) ''AAPL'' False) = PassedAll
   \<and> layer1_pass (analyze_ticker ex_lib (ex_tk (Inr ex_info) (Inr ex_hist)) ''AAPL'' False)
   \<and> layer2_pass (analyze_ticker ex_lib (ex_tk (Inr ex_info) (Inr ex_hist)) ''AAPL'' False)
   \<and> layer3_pass (analyze_ticker ex_lib (ex_tk (Inr ex_info) (Inr ex_hist)) ''AAPL'' False)
   \<and> score (analyze_ticker ex_lib (ex_tk (Inr ex_info) (Inr ex_hist)) ''AAPL'' False) = 2087 / 50
   \<and> reason (analyze_ticker ex_lib
         ((ex_tk (Inr ex_info) (Inr ex_hist))\<lparr>tk_option_chain := (\<lambda>k expiry. Inl ''timeout'')\<rparr>)
         ''AAPL'' False) = FailedLayer3 NoAtmCall
   \<and> layer1_pass (analyze_ticker ex_lib
         ((ex_tk (Inr ex_info) (Inr ex_hist))\<lparr>tk_option_chain := (\<lambda>k expiry. Inl ''timeout'')\<rparr>)
         ''AAPL'' False)
   \<and> layer2_pass (analyze_ticker ex_lib
         ((ex_tk (Inr ex_info) (Inr ex_hist))\<lparr>tk_option_chain := (\<lambda>k expiry. Inl ''timeout'')\<rparr>)
         ''AAPL'' False)"
proof -
  have q: "tk_quarterly_earnings (ex_tk (Inr ex_info) (Inr ex_hist)) = Inl ''unavailable''"
    by (simp add: ex_tk_def)
  let ?r = "analyze_ticker ex_lib
         ((ex_tk (Inr ex_info) (Inr ex_hist))\<lparr>tk_option_chain := (\<lambda>k expiry. Inl ''timeout'')\<rparr>)
         ''AAPL'' False"
  have c: "reason ?r = FailedLayer3 NoAtmCall" "layer1_pass ?r" "layer2_pass ?r"
    unfolding ex_chain_raising by simp_all
  from q ex_full_pass c show ?thesis by blast
qed

text \<open>
  Claim C8, amended. A ticker's result is the failure record with the detail \<open>e\<close> exactly
  when reading its info, else its history, else (once Layers 1 and 2 have passed) its list of
  expirations raises \<open>e\<close>. The record has score 0, the three layer flags false and the reason
  "processing failed" with that detail. The scan goes on: its results are those of the
  tickers before, this record, and those of the tickers after, one for each ticker, and the
  results of the other tickers do not depend on the handle of the failing one.
\<close>

theorem retrieval_failure_recorded:
  "(reason (analyze_ticker lb (yf t) t rvs) = ProcessingFailed e
      \<longleftrightarrow> retrieval_raises lb (yf t) rvs e)
   \<and> (retrieval_raises lb (yf t) rvs e \<longrightarrow>
        analyze_ticker lb (yf t) t rvs = failed (upper_strip t) e
        \<and> score (analyze_ticker lb (yf t) t rvs) = 0
        \<and> \<not> layer1_pass (analyze_ticker lb (yf t) t rvs)
        \<and> \<not> layer2_pass (analyze_ticker lb (yf t) t rvs)
        \<and> \<not> layer3_pass (analyze_ticker lb (yf t) t rvs)
        \<and> scan lb yf rvs (before @ t # rest)
            = scan lb yf rvs before @ failed (upper_strip t) e # scan lb yf rvs rest
        \<and> length (scan lb yf rvs (before @ t # rest)) = length (before @ t # rest)
        \<and> (\<forall>yf'. (\<forall>u. u \<noteq> t \<longrightarrow> yf' u = yf u) \<and> t \<notin> set before \<and> t \<notin> set rest \<longrightarrow>
              scan lb yf' rvs before = scan lb yf rvs before
              \<and> scan lb yf' rvs rest = scan lb yf rvs rest))"
proof (intro conjI impI allI)
  show iff: "reason (analyze_ticker lb (yf t) t rvs) = ProcessingFailed e
      \<longleftrightarrow> retrieval_raises lb (yf t) rvs e"
    by (rule analyze_ticker_failed_iff)
  show "length (scan lb yf rvs (before @ t # rest)) = length (before @ t # rest)"
    by (simp add: scan_def)
  assume raises: "retrieval_raises lb (yf t) rvs e"
  with iff have "reason (analyze_ticker lb (yf t) t rvs) = ProcessingFailed e" by simp
  then show r: "analyze_ticker lb (yf t) t rvs = failed (upper_strip t) e"
    by (rule analyze_ticker_failed)
  show "score (analyze_ticker lb (yf t) t rvs) = 0"
    and "\<not> layer1_pass (analyze_ticker lb (yf t) t rvs)"
    and "\<not> layer2_pass (analyze_ticker lb (yf t) t rvs)"
    and "\<not> layer3_pass (analyze_ticker lb (yf t) t rvs)"
    unfolding r by simp_all
  have "scan lb yf rvs (before @ t # rest)
      = scan lb yf rvs before @ analyze_ticker lb (yf t) t rvs # scan lb yf rvs rest"
    by (simp add: scan_def)
  then show "scan lb yf rvs (before @ t # rest)
      = scan lb yf rvs before @ failed (upper_strip t) e # scan lb yf rvs rest"
    unfolding r .
next
  fix yf'
  assume a: "(\<forall>u. u \<noteq> t \<longrightarrow> yf' u = yf u) \<and> t \<notin> set before \<and> t \<notin> set rest"
  have "\<forall>u\<in>set before. yf' u = yf u"
  proof
    fix u assume "u \<in> set before"
    with a have "u \<noteq> t" by auto
    with a show "yf' u = yf u" by simp
  qed
  then show "scan lb yf' rvs before = scan lb yf rvs before" by (rule scan_other_tickers)
next
  fix yf'
  assume a: "(\<forall>u. u \<noteq> t \<longrightarrow> yf' u = yf u) \<and> t \<notin> set before \<and> t \<notin> set rest"
  have "\<forall>u\<in>set rest. yf' u = yf u"
  proof
    fix u assume "u \<in> set rest"
    with a have "u \<noteq> t" by auto
    with a show "yf' u = yf u" by simp
  qed
  then show "scan lb yf' rvs rest = scan lb yf rvs rest" by (rule scan_other_tickers)
qed

theorem retrieval_failure_recorded_witness:
  "retrieval_raises ex_lib (ex_yf ''MSFT'') False ''HTTP 404''
   \<and> scan ex_lib ex_yf False [''AAPL'', ''MSFT'', ''NVDA'']
       = scan ex_lib ex_yf False [''AAPL'']
         @ failed (upper_strip ''MSFT'') ''HTTP 404'' # scan ex_lib ex_yf False [''NVDA'']
   \<and> reason (analyze_ticker ex_lib (ex_yf ''MSFT'') ''MSFT'' False)
       = ProcessingFailed ''HTTP 404''
   \<and> score (analyze_ticker ex_lib (ex_yf ''MSFT'') ''MSFT'' False) = 0"
proof -
  have i: "retrieval_raises ex_lib (ex_yf ''MSFT'') False ''HTTP 404''"
    by (simp add: retrieval_raises_def ex_yf_def ex_tk_def)
  note th = retrieval_failure_recorded [where yf = ex_yf and t = "''MSFT''"
      and e = "''HTTP 404''" and lb = ex_lib and rvs = False and before = "[''AAPL'']"
      and rest = "[''NVDA'']"]
  have r: "reason (analyze_ticker ex_lib (ex_yf ''MSFT'') ''MSFT'' False)
      = ProcessingFailed ''HTTP 404''"
    using th [THEN conjunct1] i by (rule iffD2)
  note rest = th [THEN conjunct2, THEN mp, OF i]
  have s: "score (analyze_ticker ex_lib (ex_yf ''MSFT'') ''MSFT'' False) = 0"
    using rest [THEN conjunct2, THEN conjunct1] .
  have sc: "scan ex_lib ex_yf False ([''AAPL''] @ ''MSFT'' # [''NVDA''])
      = scan ex_lib ex_yf False [''AAPL'']
        @ failed (upper_strip ''MSFT'') ''HTTP 404'' # scan ex_lib ex_yf False [''NVDA'']"
    using rest [THEN conjunct2, THEN conjunct2, THEN conjunct2, THEN conjunct2,
      THEN conjunct2, THEN conjunct1] .
  have l: "[''AAPL''] @ ''MSFT'' # [''NVDA''] = [''AAPL'', ''MSFT'', ''NVDA'']" by simp
  from i r s sc [unfolded l] show ?thesis by (intro conjI)
qed

lemma no_peg_flag:
  assumes "safe_float (pegRatio nfo) = None"
  shows "PegLow x \<notin> set (e_sanity_flags (collect_evidence nfo tech qe))"
proof -
  have a: "PegLow x \<notin> set (check_shares so fs)" for so fs
    by (simp add: check_shares_def split: option.splits)
  have b: "PegLow x \<notin> set (fst (check_revenue v))" for v
    by (simp add: check_revenue_def split: option.splits)
  have c: "PegLow x \<notin> set (fst (check_eps v))" for v
    by (simp add: check_eps_def split: option.splits)
  have d: "PegLow x \<notin> set (fst (check_eps_forward v))" for v
    by (simp add: check_eps_forward_def split: option.splits)
  have e: "PegLow x \<notin> set (fst (check_low_base u v w))" for u v w
    by (simp add: check_low_base_def split: option.splits)
  have f: "PegLow x \<notin> set (check_volatility qe)"
    by (simp add: check_volatility_def Let_def split: sum.splits)
  show ?thesis
    unfolding collect_evidence_fields(4) assms
    using a b c d e f by (simp add: check_peg_def)
qed

lemma collect_evidence_primary_peg:
  assumes "safe_float (pegRatio nfo) = None" and "safe_float (trailingPegRatio nfo) = Some p"
  shows "collect_evidence (nfo\<lparr>pegRatio := PyNum p\<rparr>) tech qe =
     (collect_evidence nfo tech qe)
       \<lparr>e_sanity_flags := e_sanity_flags (collect_evidence (nfo\<lparr>pegRatio := PyNum p\<rparr>) tech qe)\<rparr>"
  using assms by (simp add: collect_evidence_def Let_def split_beta split: option.splits)

lemma funnel_flags_only:
  assumes "ev' = ev\<lparr>e_sanity_flags := fs\<rparr>"
  shows "layer1 ev' = layer1 ev" and "e_price ev' = e_price ev"
    and "metrics_of ev' tech opt = metrics_of ev tech opt"
    and "(funnel_result tkr ev' tech sc l1 l2 l3 why opt)
            \<lparr>sanity_flags := sanity_flags (funnel_result tkr ev tech sc l1 l2 l3 why opt)\<rparr>
         = funnel_result tkr ev tech sc l1 l2 l3 why opt"
  unfolding assms by (simp_all add: layer1_def metrics_of_def funnel_result_def)


lemma funnel_primary_peg:
  assumes "safe_float (pegRatio nfo) = None" and "safe_float (trailingPegRatio nfo) = Some p"
  shows "(funnel lb (tk\<lparr>tk_info := x\<rparr>) tkr rvs (nfo\<lparr>pegRatio := PyNum p\<rparr>) hist)
            \<lparr>sanity_flags := sanity_flags (funnel lb tk tkr rvs nfo hist)\<rparr>
         = funnel lb tk tkr rvs nfo hist"
proof -
  note fo = funnel_flags_only [OF collect_evidence_primary_peg [OF assms]]
  have fl: "(failed tkr e)\<lparr>sanity_flags := sanity_flags (failed tkr e)\<rparr> = failed tkr e" for e
    by simp
  show ?thesis
    by (rule funnel_cases [where lb = lb and tk = tk and tkr = tkr and rvs = rvs and nfo = nfo
          and hist = hist])
       (simp_all add: funnel_def Let_def fo fl del: failed_fields funnel_result_fields)
qed

text \<open>
  Claim C9. When the primary PEG is absent and the fallback trailing PEG is below 0.2, no
  result carries a PEG flag; the result is, field by field except for the flags, the result
  of the same ticker with that value as its primary PEG, so Layer 1 and the score use the
  fallback as they would a primary PEG; and unless the processing failed, the PEG of the
  result is the fallback, which as a primary PEG would have been flagged.
\<close>

theorem fallback_peg_unflagged:
  assumes "tk_info tk = Inr nfo" and "safe_float (pegRatio nfo) = None"
    and "safe_float (trailingPegRatio nfo) = Some p" and "p < 0.2"
  shows "(\<forall>fs x. sanity_flags (analyze_ticker lb tk t rvs) = Some fs \<longrightarrow> PegLow x \<notin> set fs)
     \<and> (analyze_ticker lb (tk\<lparr>tk_info := Inr (nfo\<lparr>pegRatio := PyNum p\<rparr>)\<rparr>) t rvs)
           \<lparr>sanity_flags := sanity_flags (analyze_ticker lb tk t rvs)\<rparr>
         = analyze_ticker lb tk t rvs
     \<and> ((\<forall>e. reason (analyze_ticker lb tk t rvs) \<noteq> ProcessingFailed e) \<longrightarrow>
          peg (analyze_ticker lb tk t rvs) = Some p
          \<and> (\<exists>fs. sanity_flags
                      (analyze_ticker lb (tk\<lparr>tk_info := Inr (nfo\<lparr>pegRatio := PyNum p\<rparr>)\<rparr>) t rvs)
                    = Some fs \<and> PegLow p \<in> set fs))"
proof (cases "tk_history tk")
  case (Inl e)
  with assms(1) show ?thesis by (simp add: analyze_ticker_def)
next
  case (Inr hist)
  let ?tk' = "tk\<lparr>tk_info := Inr (nfo\<lparr>pegRatio := PyNum p\<rparr>)\<rparr>"
  let ?nfo' = "nfo\<lparr>pegRatio := PyNum p\<rparr>"
  let ?tkr = "upper_strip t"
  let ?tech = "get_technical_metrics (rsi_last lb) hist"
  let ?ev = "collect_evidence nfo ?tech (tk_quarterly_earnings tk)"
  let ?ev' = "collect_evidence ?nfo' ?tech (tk_quarterly_earnings tk)"
  have r: "analyze_ticker lb tk t rvs = funnel lb tk ?tkr rvs nfo hist"
    using assms(1) Inr by (simp add: analyze_ticker_funnel)
  have r': "analyze_ticker lb ?tk' t rvs = funnel lb ?tk' ?tkr rvs ?nfo' hist"
    using Inr by (simp add: analyze_ticker_def)
  have noflag: "PegLow x \<notin> set (e_sanity_flags ?ev)" for x
    using assms(2) by (rule no_peg_flag)
  have pegv: "e_peg ?ev = Some p"
    using assms(2,3) by (simp add: collect_evidence_fields)
  have flag': "PegLow p \<in> set (e_sanity_flags ?ev')"
    using assms(4) by (simp add: collect_evidence_fields(4) check_peg_def)
  then have ne': "e_sanity_flags ?ev' \<noteq> []" by auto
  have one: "\<forall>fs x. sanity_flags (funnel lb tk ?tkr rvs nfo hist) = Some fs \<longrightarrow> PegLow x \<notin> set fs"
    by (rule funnel_cases [where lb = lb and tk = tk and tkr = ?tkr and rvs = rvs and nfo = nfo
          and hist = hist])
       (auto simp: noflag split: if_splits)
  have two: "(funnel lb ?tk' ?tkr rvs ?nfo' hist)
        \<lparr>sanity_flags := sanity_flags (funnel lb tk ?tkr rvs nfo hist)\<rparr>
      = funnel lb tk ?tkr rvs nfo hist"
    using assms(2,3) by (rule funnel_primary_peg)
  have three: "peg (funnel lb tk ?tkr rvs nfo hist) = Some p"
    if "\<forall>e. reason (funnel lb tk ?tkr rvs nfo hist) \<noteq> ProcessingFailed e"
    using that
    by (rule_tac funnel_cases [where lb = lb and tk = tk and tkr = ?tkr and rvs = rvs
          and nfo = nfo and hist = hist])
       (simp_all add: pegv)
  have four: "\<exists>fs. sanity_flags (funnel lb ?tk' ?tkr rvs ?nfo' hist) = Some fs \<and> PegLow p \<in> set fs"
    if "\<forall>e. reason (funnel lb ?tk' ?tkr rvs ?nfo' hist) \<noteq> ProcessingFailed e"
    using that
    by (rule_tac funnel_cases [where lb = lb and tk = ?tk' and tkr = ?tkr and rvs = rvs
          and nfo = ?nfo' and hist = hist])
       (simp_all add: flag' ne')
  have same_reason: "reason (funnel lb ?tk' ?tkr rvs ?nfo' hist) = reason (funnel lb tk ?tkr rvs nfo hist)"
    using arg_cong [OF two, of reason] by simp
  show ?thesis
    unfolding r r' using one two three four same_reason by simp
qed

theorem fallback_peg_unflagged_witness:
  "safe_float (pegRatio (ex_info\<lparr>pegRatio := PyNone, trailingPegRatio := PyNum (1 / 10)\<rparr>))
     = None
   \<and> safe_float
        (trailingPegRatio (ex_info\<lparr>pegRatio := PyNone, trailingPegRatio := PyNum (1 / 10)\<rparr>))
     = Some (1 / 10)
   \<and> (1 / 10 :: real) < 0.2
   \<and> layer1_pass (analyze_ticker ex_lib
         (ex_tk (Inr (ex_info\<lparr>pegRatio := PyNone, trailingPegRatio := PyNum (1 / 10)\<rparr>))
            (Inr ex_hist)) ''AAPL'' False)
   \<and> score (analyze_ticker ex_lib
         (ex_tk (Inr (ex_info\<lparr>pegRatio := PyNone, trailingPegRatio := PyNum (1 / 10)\<rparr>))
            (Inr ex_hist)) ''AAPL'' False) = 1113 / 20
   \<and> peg (analyze_ticker ex_lib
         (ex_tk (Inr (ex_info\<lparr>pegRatio := PyNone, trailingPegRatio := PyNum (1 / 10)\<rparr>))
            (Inr ex_hist)) ''AAPL'' False) = Some (1 / 10)
   \<and> sanity_flags (analyze_ticker ex_lib
         (ex_tk (Inr (ex_info\<lparr>pegRatio := PyNone, trailingPegRatio := PyNum (1 / 10)\<rparr>))
            (Inr ex_hist)) ''AAPL'' False) = None"
proof -
  let ?nfo = "ex_info\<lparr>pegRatio := PyNone, trailingPegRatio := PyNum (1 / 10)\<rparr>"
  let ?tk = "ex_tk (Inr ?nfo) (Inr ex_hist)"
  let ?r = "analyze_ticker ex_lib ?tk ''AAPL'' False"
  have i: "tk_info ?tk = Inr ?nfo" by (simp add: ex_tk_def)
  have a: "safe_float (pegRatio ?nfo) = None" by simp
  have b: "safe_float (trailingPegRatio ?nfo) = Some (1 / 10)" by simp
  have c: "(1 / 10 :: real) < 0.2" by simp
  from ex_full_pass_fallback
  have ex: "score ?r = 1113 / 20" "layer1_pass ?r" "reason ?r = PassedAll" "sanity_flags ?r = None"
    by blast+
  from fallback_peg_unflagged [OF i a b c, of ex_lib "''AAPL''" False] ex(3)
  have "peg ?r = Some (1 / 10)" by simp
  with a b c ex show ?thesis by blast
qed

end
